theory Spec2Isabelle
  imports Complex_Main "HOL-Library.Sublist"
begin

section \<open>Data model\<close>

text \<open>
  The class \<open>PreInscriberWithProtection\<close> builds a chain of three transactions. The model
  keeps a decoded partially signed transaction as a structured value: \<open>decodePSBT\<close> and
  \<open>toBase64\<close> are the two directions of one serialisation and are read as the identity.
  An input carries the spent outpoint together with its PSBT fields; a transaction id is the
  hex string in display order, so \<open>reverseBuffer(hash).toString("hex")\<close> is the stored id.
  Satoshi amounts are integers, fee rates are real numbers. A quotient whose divisor is 0
  is not a finite number in JavaScript (\<open>Infinity\<close>, \<open>-Infinity\<close> or \<open>NaN\<close>); a fee rate
  is therefore a \<open>real option\<close>, with \<open>None\<close> for every value that is not finite.
\<close>

datatype network = mainnet | testnet | regtest | signet

datatype chain = bitcoin | fractal_bitcoin

datatype error =
    OrditSDKError string  \<comment> \<open>\<open>throw new OrditSDKError(message)\<close>\<close>
  | TypeError             \<comment> \<open>a property read on \<open>undefined\<close>\<close>
  | LibraryError          \<comment> \<open>an exception raised inside the transaction library\<close>

record witness_utxo =
  wu_script :: string
  wu_value :: int

record psbt_input =
  hash :: string
  index :: nat
  witnessUtxo :: "witness_utxo option"
  tapInternalKey :: "string option"
  tapMerkleRoot :: "string option"
  sighashType :: "nat option"
  redeemScript :: "string option"

record tx_output =
  out_script :: string
  out_value :: int

record psbt =
  inputs :: "psbt_input list"
  txOutputs :: "tx_output list"

text \<open>\<open>Output\<close> of \<open>./types\<close>: a destination address and an amount.\<close>

record output_req =
  address :: string
  amount :: int

record utxo =
  utxo_txid :: string
  utxo_n :: nat
  utxo_sats :: int
  scriptPubKey_address :: string

record inscription =
  insc_outpoint :: string
  insc_owner :: string

text \<open>The objects handed to the coin selection library: a PSBT input plus the fields the
  library reads (\<open>txid\<close>, \<open>vout\<close>, \<open>value\<close>, \<open>isTaproot\<close>).\<close>

record bs_input =
  pin :: psbt_input
  txid :: string
  vout :: nat
  bs_value :: int
  isTaproot :: bool

record cs_output =
  cs_address :: "string option"
  cs_value :: "int option"

record cs_result =
  cs_inputs :: "bs_input list option"
  cs_outputs :: "cs_output list option"

record script_info =
  si_type :: string
  si_address :: "string option"

record payment =
  pay_address :: "string option"
  pay_output :: "string option"
  pay_hash :: "string option"

record envelope =
  mediaContent :: string
  mediaType :: string
  receiverAddress :: string
  postage :: int

datatype chunk = Push string | OP_CHECKSIG

record raw_tx =
  tx_ins :: "(string \<times> nat \<times> string option) list"
  tx_outs :: "tx_output list"

text \<open>
  Everything the class imports from outside this file is a field of the environment: the
  data source, the coin selection library (\<open>coinSelect\<close>, \<open>funding\<close>,
  \<open>utils.transactionBytes\<close>), the transaction library (\<open>p2tr\<close>, \<open>script.compile\<close>,
  address to script conversion, \<open>Transaction.getId\<close>) and the helpers of the SDK
  (\<open>getAddressType\<close>, \<open>getScriptType\<close>, \<open>isP2TR\<close>, \<open>toXOnly\<close>,
  \<open>buildWitnessScriptV2\<close>, \<open>processInput\<close>). A data source answer that is
  \<open>undefined\<close> is \<open>None\<close>. Apart from \<open>processInput\<close> and the address decoding, the
  helpers are total functions: what such a helper does on an argument it refuses is outside
  the model. The funding estimate and the size are read as numbers.
\<close>

record env =
  getAddressType :: "string \<Rightarrow> network \<Rightarrow> string"
  getScriptType :: "string \<Rightarrow> network \<Rightarrow> script_info"
  isP2TR :: "string \<Rightarrow> network \<Rightarrow> bool"
  toXOnly :: "string \<Rightarrow> string"
  toOutputScript :: "string \<Rightarrow> network \<Rightarrow> string option"
  getId :: "raw_tx \<Rightarrow> string"
  compile :: "chunk list \<Rightarrow> string"
  p2tr :: "string \<Rightarrow> network \<Rightarrow> string list \<Rightarrow> payment"
  jsonStringify :: "(string \<times> string) list \<Rightarrow> string"
  buildWitnessScriptV2 :: "string \<Rightarrow> envelope list \<Rightarrow> string"
  getInscriptions :: "string \<Rightarrow> inscription list option"
  getUnspents :: "string \<Rightarrow> utxo list option"
  processInput :: "utxo \<Rightarrow> string \<Rightarrow> network \<Rightarrow> error + psbt_input"
  coinSelect :: "bs_input list \<Rightarrow> output_req list \<Rightarrow> real \<Rightarrow> string \<Rightarrow> cs_result"
  funding :: "bs_input list \<Rightarrow> tx_output list \<Rightarrow> real option \<Rightarrow> int"
  transactionBytes :: "bs_input list \<Rightarrow> tx_output list \<Rightarrow> int"

text \<open>The constructor arguments (read-only fields of the instance).\<close>

record config =
  network :: network
  chain :: chain
  escrowPublicKey :: string
  inscriptionsPsbts :: "psbt list"
  buyerAddress :: string
  buyerPublicKey :: string
  receiveAddress :: string
  effectiveFeeRate :: real
  extraOutputs :: "output_req list"

text \<open>The mutable fields of the instance.\<close>

record session =
  buyerCommitPaymentAddress :: "payment option"
  buyerUtxos :: "utxo list"
  firstTxId :: "string option"

definition BASE_FEERATE :: real where
  "BASE_FEERATE = 2"

definition SIGHASH_ALL :: nat where
  "SIGHASH_ALL = 1"

text \<open>The requests sent to the data source, in the order they are issued.\<close>

datatype event = GetInscriptions string | GetUnspents string

section \<open>Helpers\<close>

fun string_of_nat :: "nat \<Rightarrow> string" where
  "string_of_nat n =
     (if n < 10 then [''0123456789'' ! n]
      else string_of_nat (n div 10) @ [''0123456789'' ! (n mod 10)])"

declare string_of_nat.simps [simp del]

definition js_div :: "real \<Rightarrow> real \<Rightarrow> real option" where
  "js_div a b = (if b = 0 then None else Some (a / b))"

text \<open>The template \<open>`${txid}:${index}`\<close>.\<close>

definition outpointOf :: "psbt_input \<Rightarrow> string" where
  "outpointOf i = hash i @ '':'' @ string_of_nat (index i)"

text \<open>Running a fallible callback over a list; the first failure in list order is the result.\<close>

fun mapE :: "('a \<Rightarrow> error + 'b) \<Rightarrow> 'a list \<Rightarrow> error + 'b list" where
  "mapE f [] = Inr []"
| "mapE f (x # xs) =
     (case f x of
        Inl e \<Rightarrow> Inl e
      | Inr y \<Rightarrow> (case mapE f xs of Inl e \<Rightarrow> Inl e | Inr ys \<Rightarrow> Inr (y # ys)))"

text \<open>\<open>getNetwork(chain === "fractal-bitcoin" ? "mainnet" : network)\<close>.\<close>

definition psbtNetwork :: "chain \<Rightarrow> network \<Rightarrow> network" where
  "psbtNetwork c n = (if c = fractal_bitcoin then mainnet else n)"

text \<open>\<open>Psbt.addInput\<close> and \<open>Psbt.addOutput\<close>: both append. \<open>addOutput\<close> turns the address
  into its output script and raises where the address does not decode on the network. The
  further checks the library makes on an input (a repeated outpoint, malformed fields) are
  not part of the model, except where a field the class passes on may be missing.\<close>

definition addInput :: "psbt \<Rightarrow> psbt_input \<Rightarrow> psbt" where
  "addInput p i = p\<lparr>inputs := inputs p @ [i]\<rparr>"

definition addOutput :: "env \<Rightarrow> network \<Rightarrow> psbt \<Rightarrow> output_req \<Rightarrow> error + psbt" where
  "addOutput E n p out =
     (case toOutputScript E (address out) n of
        None \<Rightarrow> Inl LibraryError
      | Some s \<Rightarrow> Inr (p\<lparr>txOutputs := txOutputs p @ [\<lparr>out_script = s, out_value = amount out\<rparr>]\<rparr>))"

fun addOutputs :: "env \<Rightarrow> network \<Rightarrow> psbt \<Rightarrow> output_req list \<Rightarrow> error + psbt" where
  "addOutputs E n p [] = Inr p"
| "addOutputs E n p (out # outs) =
     (case addOutput E n p out of Inl e \<Rightarrow> Inl e | Inr p' \<Rightarrow> addOutputs E n p' outs)"

definition emptyPsbt :: psbt where
  "emptyPsbt = \<lparr>inputs = [], txOutputs = []\<rparr>"

text \<open>\<open>Transaction.fromBuffer(psbt.data.getTransaction())\<close>: the unsigned transaction, every
  input script empty.\<close>

definition unsignedTx :: "psbt \<Rightarrow> raw_tx" where
  "unsignedTx p = \<lparr>tx_ins = map (\<lambda>i. (hash i, index i, None)) (inputs p), tx_outs = txOutputs p\<rparr>"

section \<open>Fees and sizes\<close>

text \<open>\<open>getTotalFees\<close>: the witness values of the inputs (0 where an input has none) minus
  the output values.\<close>

definition inputValue :: "psbt_input \<Rightarrow> int" where
  "inputValue i = (case witnessUtxo i of None \<Rightarrow> 0 | Some w \<Rightarrow> wu_value w)"

definition getTotalFees :: "psbt \<Rightarrow> int" where
  "getTotalFees p = sum_list (map inputValue (inputs p)) - sum_list (map out_value (txOutputs p))"

definition toBsInput :: "env \<Rightarrow> network \<Rightarrow> psbt_input \<Rightarrow> bs_input" where
  "toBsInput E n i =
     \<lparr>pin = i, txid = hash i, vout = index i, bs_value = inputValue i,
      isTaproot = (case witnessUtxo i of None \<Rightarrow> False | Some w \<Rightarrow> isP2TR E (wu_script w) n)\<rparr>"

definition getVBytes :: "env \<Rightarrow> config \<Rightarrow> psbt \<Rightarrow> int" where
  "getVBytes E C p = transactionBytes E (map (toBsInput E (network C)) (inputs p)) (txOutputs p)"

text \<open>\<open>calculateFundingAmount\<close> (static): the taproot test is always made on mainnet.\<close>

definition calculateFundingAmount :: "env \<Rightarrow> psbt \<Rightarrow> real option \<Rightarrow> int" where
  "calculateFundingAmount E p feeRate =
     funding E (map (toBsInput E mainnet) (inputs p)) (txOutputs p) feeRate"

section \<open>Chaining an output into the next transaction\<close>

text \<open>\<open>generateInputFromPSBTOutput\<close>. Reading \<open>script\<close> of an output that does not exist
  is a \<open>TypeError\<close>. \<open>sighashType\<close> is copied only when it is truthy.\<close>

definition generateInputFromPSBTOutput ::
  "env \<Rightarrow> config \<Rightarrow> psbt \<Rightarrow> nat \<Rightarrow> string \<Rightarrow> nat option \<Rightarrow> error + psbt_input" where
  "generateInputFromPSBTOutput E C p outputIndex publicKey sighash =
     (if outputIndex < length (txOutputs p) then
        (let psbtOutput = txOutputs p ! outputIndex;
             scriptType = getScriptType E (out_script psbtOutput) (network C);
             sh = (case sighash of None \<Rightarrow> None | Some t \<Rightarrow> if t = 0 then None else Some t)
         in if si_type scriptType = ''p2tr'' then
              Inr \<lparr>hash = getId E (unsignedTx p), index = outputIndex,
                   witnessUtxo = Some \<lparr>wu_script = out_script psbtOutput, wu_value = out_value psbtOutput\<rparr>,
                   tapInternalKey = Some (toXOnly E publicKey), tapMerkleRoot = None,
                   sighashType = sh, redeemScript = None\<rparr>
            else if si_type scriptType = ''p2wpkh'' then
              Inr \<lparr>hash = getId E (unsignedTx p), index = outputIndex,
                   witnessUtxo = Some \<lparr>wu_script = out_script psbtOutput, wu_value = out_value psbtOutput\<rparr>,
                   tapInternalKey = None, tapMerkleRoot = None,
                   sighashType = sh, redeemScript = None\<rparr>
            else Inl (OrditSDKError ''scripts other than p2tr and p2wpkh are not supported!''))
      else Inl TypeError)"

section \<open>Commitment addresses\<close>

text \<open>\<open>getBuyerCommitAddress\<close>: a taproot address over two leaves, the key spend script and a
  data script that commits the serialised envelope. The payment object is stored in the
  session.\<close>

definition getBuyerCommitAddress ::
  "env \<Rightarrow> config \<Rightarrow> session \<Rightarrow> string \<Rightarrow> string \<Rightarrow> string \<Rightarrow> error + (string \<times> session)" where
  "getBuyerCommitAddress E C s pubKey addr uniqueId =
     (let buyerXPub = toXOnly E pubKey;
          content = jsonStringify E
            [(''buyerPublicKey'', pubKey), (''buyerAddress'', addr), (''uniqueId'', uniqueId)];
          dataScript = buildWitnessScriptV2 E buyerXPub
            [\<lparr>mediaContent = content, mediaType = ''application/json;charset=utf-8'',
              receiverAddress = addr, postage = 0\<rparr>];
          redeem = compile E [Push buyerXPub, OP_CHECKSIG];
          payment = p2tr E buyerXPub (psbtNetwork (chain C) (network C)) [redeem, dataScript]
      in case pay_address payment of
           None \<Rightarrow> Inl (OrditSDKError ''Error while creating escrow address'')
         | Some a \<Rightarrow>
             if a = [] then Inl (OrditSDKError ''Error while creating escrow address'')
             else Inr (a, s\<lparr>buyerCommitPaymentAddress := Some payment\<rparr>))"

text \<open>\<open>getEscrowTaprootAddress\<close> (static): the same construction over the escrow key, the
  envelope holding the inscription outpoint alone. It returns the address and the merkle
  hash; a hash that is present is a buffer object, which is truthy also when empty.\<close>

definition getEscrowTaprootAddress ::
  "env \<Rightarrow> string \<Rightarrow> string \<Rightarrow> network \<Rightarrow> chain \<Rightarrow> error + (string \<times> string)" where
  "getEscrowTaprootAddress E inscriptionOutpoint escrowKey n c =
     (let escrowXPub = toXOnly E escrowKey;
          content = jsonStringify E [(''inscriptionOutpoint'', inscriptionOutpoint)];
          dataScript = buildWitnessScriptV2 E escrowXPub
            [\<lparr>mediaContent = content, mediaType = ''application/json;charset=utf-8'',
              receiverAddress = [], postage = 0\<rparr>];
          redeem = compile E [Push escrowXPub, OP_CHECKSIG];
          payment = p2tr E escrowXPub (psbtNetwork c n) [redeem, dataScript]
      in case pay_address payment of
           None \<Rightarrow> Inl (OrditSDKError ''Error while creating escrow address'')
         | Some a \<Rightarrow>
             if a = [] then Inl (OrditSDKError ''Error while creating escrow address'')
             else (case pay_hash payment of
                     None \<Rightarrow> Inl (OrditSDKError ''Error while creating escrow address'')
                   | Some h \<Rightarrow> Inr (a, h)))"

section \<open>Validation of the seller transactions\<close>

text \<open>
  \<open>validateInscriptionPsbts\<close> maps an asynchronous callback over the seller transactions and
  awaits all of them. The callback runs without interruption up to its single \<open>await\<close>, the
  request to the inscription index: \<open>sellerOf\<close> is that first part, \<open>checkInscription\<close> the
  part after the answer has arrived, \<open>validatePsbt\<close> the whole callback.
\<close>

definition sellerOf :: "env \<Rightarrow> config \<Rightarrow> psbt \<Rightarrow> error + (string \<times> string)" where
  "sellerOf E C p =
     (case inputs p of
        [] \<Rightarrow> Inl TypeError
      | input # _ \<Rightarrow>
          (case witnessUtxo input of
             None \<Rightarrow> Inl (OrditSDKError ''invalid seller psbt'')
           | Some w \<Rightarrow>
               (case si_address (getScriptType E (wu_script w) (network C)) of
                  None \<Rightarrow> Inl (OrditSDKError ''invalid seller address in psbt'')
                | Some a \<Rightarrow>
                    if a = [] then Inl (OrditSDKError ''invalid seller address in psbt'')
                    else Inr (outpointOf input, a))))"

definition checkInscription :: "env \<Rightarrow> string \<times> string \<Rightarrow> error + unit" where
  "checkInscription E q =
     (case q of (outpoint, sellerAddress) \<Rightarrow>
        (case getInscriptions E outpoint of
           None \<Rightarrow> Inl (OrditSDKError (''Inscription at '' @ outpoint @ '' not found''))
         | Some res \<Rightarrow>
             if res = [] then Inl (OrditSDKError (''Inscription at '' @ outpoint @ '' not found''))
             else if list_ex (\<lambda>i. insc_outpoint i = outpoint \<and> insc_owner i = sellerAddress) res
               then Inr ()
             else Inl (OrditSDKError (''Inscription at '' @ outpoint @ '' does not match''))))"

definition validatePsbt :: "env \<Rightarrow> config \<Rightarrow> psbt \<Rightarrow> error + unit" where
  "validatePsbt E C p = (case sellerOf E C p of Inl e \<Rightarrow> Inl e | Inr q \<Rightarrow> checkInscription E q)"

text \<open>The failures and the successes of a list of results, each in list order.\<close>

fun lefts :: "('e + 'a) list \<Rightarrow> 'e list" where
  "lefts [] = []"
| "lefts (Inl e # rs) = e # lefts rs"
| "lefts (Inr a # rs) = lefts rs"

fun rights :: "('e + 'a) list \<Rightarrow> 'a list" where
  "rights [] = []"
| "rights (Inl e # rs) = rights rs"
| "rights (Inr a # rs) = a # rights rs"

text \<open>
  \<open>Promise.all\<close> rejects with the rejection that happens first. A callback that fails before
  its \<open>await\<close> has rejected by the time the others are still waiting for the index, so such
  a failure wins, the first in list order. The answers of the index are taken to arrive in
  the order of the requests, so among the later failures the first in list order wins too.
  Every callback that reaches its \<open>await\<close> has sent its request, whatever the others do.
\<close>

definition validateInscriptionPsbts :: "env \<Rightarrow> config \<Rightarrow> psbt list \<Rightarrow> (error + unit) \<times> event list" where
  "validateInscriptionPsbts E C ps =
     (let started = map (sellerOf E C) ps;
          requests = map (\<lambda>q. GetInscriptions (fst q)) (rights started)
      in case lefts started of
           e # _ \<Rightarrow> (Inl e, requests)
         | [] \<Rightarrow>
             (case lefts (map (checkInscription E) (rights started)) of
                e # _ \<Rightarrow> (Inl e, requests)
              | [] \<Rightarrow> (Inr (), requests)))"

text \<open>\<open>getBuyerUtxos\<close>: fetches the spendable outputs of the buyer, unless the buyer address
  is the empty string.\<close>

definition getBuyerUtxos :: "env \<Rightarrow> config \<Rightarrow> session \<Rightarrow> (error + session) \<times> event list" where
  "getBuyerUtxos E C s =
     (if buyerAddress C \<noteq> [] then
        (case getUnspents E (buyerAddress C) of
           None \<Rightarrow> (Inl (OrditSDKError (''No spendable utxos found for '' @ buyerAddress C)),
                    [GetUnspents (buyerAddress C)])
         | Some us \<Rightarrow>
             if us = [] then
               (Inl (OrditSDKError (''No spendable utxos found for '' @ buyerAddress C)),
                [GetUnspents (buyerAddress C)])
             else (Inr (s\<lparr>buyerUtxos := us\<rparr>), [GetUnspents (buyerAddress C)]))
      else (Inr s, []))"

section \<open>The three builders\<close>

text \<open>
  \<open>createFirstTransaction\<close>: every buyer output becomes a coin selection candidate, the
  library picks inputs and returns the outputs, and the transaction is assembled from what
  it returned. A picked input is looked up among the candidates by \<open>txid\<close> and \<open>vout\<close>
  (a miss is a \<open>TypeError\<close>); an output without an address goes to the buyer; an output
  whose value is missing or 0 is rejected. The candidates are prepared by concurrent calls
  of \<open>processInput\<close>; where several fail, the failure first in list order is taken.
\<close>

definition candidate :: "env \<Rightarrow> config \<Rightarrow> utxo \<Rightarrow> error + bs_input" where
  "candidate E C u =
     (case processInput E u (buyerPublicKey C) (network C) of
        Inl e \<Rightarrow> Inl e
      | Inr i \<Rightarrow>
          Inr \<lparr>pin = i, txid = utxo_txid u, vout = utxo_n u, bs_value = utxo_sats u,
               isTaproot = (getAddressType E (scriptPubKey_address u) (network C) = ''p2tr'')\<rparr>)"

fun addSelectedInputs :: "bs_input list \<Rightarrow> psbt \<Rightarrow> bs_input list \<Rightarrow> error + psbt" where
  "addSelectedInputs cands p [] = Inr p"
| "addSelectedInputs cands p (input # rest) =
     (case find (\<lambda>i. txid i = txid input \<and> vout i = vout input) cands of
        None \<Rightarrow> Inl TypeError
      | Some utxoInput \<Rightarrow>
          addSelectedInputs cands
            (addInput p ((pin utxoInput)\<lparr>hash := txid utxoInput, index := vout input\<rparr>)) rest)"

fun addSelectedOutputs :: "env \<Rightarrow> config \<Rightarrow> psbt \<Rightarrow> cs_output list \<Rightarrow> error + psbt" where
  "addSelectedOutputs E C p [] = Inr p"
| "addSelectedOutputs E C p (out # rest) =
     (case cs_value out of
        None \<Rightarrow> Inl (OrditSDKError ''Output value is required'')
      | Some v \<Rightarrow>
          if v = 0 then Inl (OrditSDKError ''Output value is required'')
          else (case addOutput E (psbtNetwork (chain C) (network C)) p
                       \<lparr>address = (case cs_address out of None \<Rightarrow> buyerAddress C | Some a \<Rightarrow> a),
                        amount = v\<rparr> of
                  Inl e \<Rightarrow> Inl e
                | Inr p' \<Rightarrow> addSelectedOutputs E C p' rest))"

text \<open>The transaction whose id is cached: the unsigned transaction, with the redeem script
  of a picked input compiled into the script of the input at the same position.\<close>

definition firstTx :: "env \<Rightarrow> psbt \<Rightarrow> bs_input list \<Rightarrow> raw_tx" where
  "firstTx E p picked =
     \<lparr>tx_ins = map (\<lambda>(i, r). (hash i, index i,
                 (case redeemScript (pin r) of None \<Rightarrow> None | Some rs \<Rightarrow> Some (compile E [Push rs]))))
               (zip (inputs p) picked),
      tx_outs = txOutputs p\<rparr>"

definition createFirstTransaction ::
  "env \<Rightarrow> config \<Rightarrow> session \<Rightarrow> output_req list \<Rightarrow> error + (psbt \<times> session)" where
  "createFirstTransaction E C s outs =
     (case mapE (candidate E C) (buyerUtxos s) of
        Inl e \<Rightarrow> Inl e
      | Inr cands \<Rightarrow>
          (let res = coinSelect E cands outs BASE_FEERATE (buyerAddress C) in
           case cs_inputs res of
             None \<Rightarrow> Inl (OrditSDKError ''No input utxo found. Not enough funds.'')
           | Some picked \<Rightarrow>
               if picked = [] then Inl (OrditSDKError ''No input utxo found. Not enough funds.'')
               else (case cs_outputs res of
                       None \<Rightarrow> Inl (OrditSDKError ''No output found.'')
                     | Some selected \<Rightarrow>
                         if selected = [] then Inl (OrditSDKError ''No output found.'')
                         else (case addSelectedInputs cands emptyPsbt picked of
                                 Inl e \<Rightarrow> Inl e
                               | Inr p1 \<Rightarrow>
                                   (case addSelectedOutputs E C p1 selected of
                                      Inl e \<Rightarrow> Inl e
                                    | Inr p2 \<Rightarrow>
                                        Inr (p2, s\<lparr>firstTxId := Some (getId E (firstTx E p2 picked))\<rparr>))))))"

text \<open>
  \<open>createSecondTransaction\<close>: the output of the first transaction at \<open>outputIndex\<close> is added
  to the seller transaction as one more input. The object literal is evaluated before
  \<open>addInput\<close> runs: a session without payment object is a \<open>TypeError\<close>, a missing first
  transaction id is refused by the library.
\<close>

definition createSecondTransaction ::
  "env \<Rightarrow> config \<Rightarrow> session \<Rightarrow> psbt \<Rightarrow> nat \<Rightarrow> psbt \<Rightarrow> error + psbt" where
  "createSecondTransaction E C s firstPsbt outputIndex inscriptionPsbt =
     (case generateInputFromPSBTOutput E C firstPsbt outputIndex (buyerPublicKey C) (Some SIGHASH_ALL) of
        Inl e \<Rightarrow> Inl e
      | Inr g \<Rightarrow>
          (case buyerCommitPaymentAddress s of
             None \<Rightarrow> Inl TypeError
           | Some pay \<Rightarrow>
               (case firstTxId s of
                  None \<Rightarrow> Inl LibraryError
                | Some h \<Rightarrow> Inr (addInput inscriptionPsbt (g\<lparr>hash := h, tapMerkleRoot := pay_hash pay\<rparr>)))))"

text \<open>
  \<open>createWithdrawTransaction\<close>: output 0 of every second transaction becomes an input, with
  the merkle hash of the escrow address of the inscription outpoint (first input of that
  second transaction), and is paid out in full to the receive address; the extra outputs
  follow, and the funding output of the first transaction is the last input.
\<close>

definition escrowInput :: "env \<Rightarrow> config \<Rightarrow> psbt \<Rightarrow> error + psbt_input" where
  "escrowInput E C p =
     (case inputs p of
        [] \<Rightarrow> Inl TypeError
      | i0 # _ \<Rightarrow>
          (case getEscrowTaprootAddress E (outpointOf i0) (escrowPublicKey C) (network C) (chain C) of
             Inl e \<Rightarrow> Inl e
           | Inr (a, merkleHash) \<Rightarrow>
               (case generateInputFromPSBTOutput E C p 0 (escrowPublicKey C) (Some SIGHASH_ALL) of
                  Inl e \<Rightarrow> Inl e
                | Inr g \<Rightarrow> Inr (g\<lparr>tapMerkleRoot := Some merkleHash\<rparr>))))"

fun addEscrowInputs :: "env \<Rightarrow> config \<Rightarrow> psbt \<Rightarrow> psbt_input list \<Rightarrow> error + psbt" where
  "addEscrowInputs E C p [] = Inr p"
| "addEscrowInputs E C p (input # rest) =
     (case witnessUtxo input of
        None \<Rightarrow> Inl TypeError
      | Some w \<Rightarrow>
          (case addOutput E (psbtNetwork (chain C) (network C)) (addInput p input)
                  \<lparr>address = receiveAddress C, amount = wu_value w\<rparr> of
             Inl e \<Rightarrow> Inl e
           | Inr p' \<Rightarrow> addEscrowInputs E C p' rest))"

definition createWithdrawTransaction ::
  "env \<Rightarrow> config \<Rightarrow> session \<Rightarrow> psbt \<Rightarrow> nat \<Rightarrow> psbt list \<Rightarrow> error + psbt" where
  "createWithdrawTransaction E C s firstPsbt firstIndex seconds =
     (case mapE (escrowInput E C) seconds of
        Inl e \<Rightarrow> Inl e
      | Inr ins \<Rightarrow>
          (case addEscrowInputs E C emptyPsbt ins of
             Inl e \<Rightarrow> Inl e
           | Inr p1 \<Rightarrow>
               (case addOutputs E (psbtNetwork (chain C) (network C)) p1 (extraOutputs C) of
                  Inl e \<Rightarrow> Inl e
                | Inr p2 \<Rightarrow>
                    (case generateInputFromPSBTOutput E C firstPsbt firstIndex (buyerPublicKey C)
                            (Some SIGHASH_ALL) of
                       Inl e \<Rightarrow> Inl e
                     | Inr fundingInput \<Rightarrow>
                         (case buyerCommitPaymentAddress s of
                            None \<Rightarrow> Inl TypeError
                          | Some pay \<Rightarrow>
                              (case pay_hash pay of
                                 None \<Rightarrow> Inl TypeError
                               | Some h \<Rightarrow>
                                   (case firstTxId s of
                                      None \<Rightarrow> Inl LibraryError
                                    | Some fid \<Rightarrow>
                                        Inr (addInput p2
                                              (fundingInput\<lparr>hash := fid, tapMerkleRoot := Some h\<rparr>)))))))))"

section \<open>The fee loop\<close>

text \<open>
  The callback that sizes the output of the first transaction which funds one second
  transaction: the seller transaction gets a dummy taproot input of 600 satoshi, the funding
  it still needs at the base fee rate is estimated, and the dummy amount is added.
\<close>

definition dummyInput :: "env \<Rightarrow> config \<Rightarrow> payment \<Rightarrow> string \<Rightarrow> psbt_input" where
  "dummyInput E C pay scr =
     \<lparr>hash = replicate 64 (CHR ''0''), index = 0,
      witnessUtxo = Some \<lparr>wu_script = scr, wu_value = 600\<rparr>,
      tapInternalKey = Some (toXOnly E (buyerPublicKey C)), tapMerkleRoot = pay_hash pay,
      sighashType = None, redeemScript = None\<rparr>"

definition commitmentFundingOutput ::
  "env \<Rightarrow> config \<Rightarrow> session \<Rightarrow> string \<Rightarrow> psbt \<Rightarrow> error + output_req" where
  "commitmentFundingOutput E C s buyerCommitmentAddress p =
     (case buyerCommitPaymentAddress s of
        None \<Rightarrow> Inl TypeError
      | Some pay \<Rightarrow>
          (case pay_output pay of
             None \<Rightarrow> Inl LibraryError
           | Some scr \<Rightarrow>
               Inr \<lparr>address = buyerCommitmentAddress,
                    amount = calculateFundingAmount E (addInput p (dummyInput E C pay scr))
                               (Some BASE_FEERATE) + 600\<rparr>))"

text \<open>The variables of the loop after one pass.\<close>

record loop_state =
  ls_session :: session
  CPFPFunding :: int
  extraCPFPFunding :: int
  firstTransactionPSBT :: psbt
  secondTransactionPSBTs :: "psbt list"
  thirdTransactionPSBT :: psbt

text \<open>One pass of the \<open>do ... while\<close> body, started with the current \<open>CPFPFunding\<close>.\<close>

definition feeLoopBody :: "env \<Rightarrow> config \<Rightarrow> string \<Rightarrow> session \<Rightarrow> int \<Rightarrow> error + loop_state" where
  "feeLoopBody E C uniqueId s cpfp =
     (case getBuyerCommitAddress E C s (buyerPublicKey C) (buyerAddress C) uniqueId of
        Inl e \<Rightarrow> Inl e
      | Inr (buyerCommitmentAddress, s1) \<Rightarrow>
          (case mapE (commitmentFundingOutput E C s1 buyerCommitmentAddress) (inscriptionsPsbts C) of
             Inl e \<Rightarrow> Inl e
           | Inr outs \<Rightarrow>
               (let firstTransactionOutputs = outs @ [\<lparr>address = buyerCommitmentAddress, amount = cpfp\<rparr>];
                    indexForCPFPFunding = length firstTransactionOutputs - 1
                in case createFirstTransaction E C s1 firstTransactionOutputs of
                     Inl e \<Rightarrow> Inl e
                   | Inr (first, s2) \<Rightarrow>
                       (case mapE (\<lambda>(inscription, i). createSecondTransaction E C s2 first i inscription)
                               (zip (inscriptionsPsbts C) [0 ..< length (inscriptionsPsbts C)]) of
                          Inl e \<Rightarrow> Inl e
                        | Inr seconds \<Rightarrow>
                            (case createWithdrawTransaction E C s2 first indexForCPFPFunding seconds of
                               Inl e \<Rightarrow> Inl e
                             | Inr third \<Rightarrow>
                                 (let totalVbytes = getVBytes E C first + getVBytes E C third
                                        + sum_list (map (getVBytes E C) seconds);
                                      desiredTotalFee = effectiveFeeRate C * real_of_int totalVbytes;
                                      feesPaidByFirstTx = getTotalFees first;
                                      feesPaidBySecondTxs = sum_list (map getTotalFees seconds);
                                      CPFPFeeRate = js_div
                                        (desiredTotalFee - real_of_int (feesPaidByFirstTx + feesPaidBySecondTxs))
                                        (real_of_int (getVBytes E C third));
                                      extraFunding = calculateFundingAmount E third CPFPFeeRate
                                  in Inr \<lparr>ls_session = s2, CPFPFunding = cpfp + extraFunding,
                                          extraCPFPFunding = extraFunding,
                                          firstTransactionPSBT = first,
                                          secondTransactionPSBTs = seconds,
                                          thirdTransactionPSBT = third\<rparr>))))))"

text \<open>
  The loop itself repeats the body while the extra funding it computed is positive, and
  nothing else stops it: a run that never reaches an extra funding of 0 or less does not
  return, which is the value \<open>None\<close>.
\<close>

partial_function (option) feeLoop ::
  "env \<Rightarrow> config \<Rightarrow> string \<Rightarrow> session \<Rightarrow> int \<Rightarrow> (error + loop_state) option" where
  "feeLoop E C uniqueId s cpfp =
     (case feeLoopBody E C uniqueId s cpfp of
        Inl e \<Rightarrow> Some (Inl e)
      | Inr st \<Rightarrow>
          if extraCPFPFunding st > 0 then feeLoop E C uniqueId (ls_session st) (CPFPFunding st)
          else Some (Inr st))"

record response =
  firstTransactionPSBTB64 :: psbt
  secondTransactionPSBTB64s :: "psbt list"
  thirdTransactionPSBTB64 :: psbt

definition responseOf :: "loop_state \<Rightarrow> response" where
  "responseOf st =
     \<lparr>firstTransactionPSBTB64 = firstTransactionPSBT st,
      secondTransactionPSBTB64s = secondTransactionPSBTs st,
      thirdTransactionPSBTB64 = thirdTransactionPSBT st\<rparr>"

text \<open>\<open>buildTransactions\<close>: the result, or the error thrown, together with the requests
  that were sent to the data source before the call ended.\<close>

definition buildTransactions ::
  "env \<Rightarrow> config \<Rightarrow> session \<Rightarrow> string \<Rightarrow> ((error + response) \<times> event list) option" where
  "buildTransactions E C s uniqueId =
     (if inscriptionsPsbts C = [] then Some (Inl (OrditSDKError ''inscriptionsPsbts are required''), [])
      else
        (let buyerAddressType = getAddressType E (buyerAddress C) (network C) in
         if buyerAddressType \<noteq> ''p2sh'' \<and> buyerAddressType \<noteq> ''p2wsh'' \<and>
            buyerAddressType \<noteq> ''p2wpkh'' \<and> buyerAddressType \<noteq> ''p2tr''
         then Some (Inl (OrditSDKError
                 (''Buyer address '' @ buyerAddress C @ '' must be a segwit/taproot/p2sh address'')), [])
         else
           (case validateInscriptionPsbts E C (inscriptionsPsbts C) of
              (Inl e, reqs) \<Rightarrow> Some (Inl e, reqs)
            | (Inr u, reqs) \<Rightarrow>
                (case getBuyerUtxos E C s of
                   (Inl e, reqs') \<Rightarrow> Some (Inl e, reqs @ reqs')
                 | (Inr s1, reqs') \<Rightarrow>
                     (case feeLoop E C uniqueId s1 600 of
                        None \<Rightarrow> None
                      | Some (Inl e) \<Rightarrow> Some (Inl e, reqs @ reqs')
                      | Some (Inr st) \<Rightarrow> Some (Inr (responseOf st), reqs @ reqs'))))))"

section \<open>A concrete run: two inscriptions on regtest\<close>

text \<open>
  A small instance of every library, used to run the builder on concrete data. Scripts are
  written as their addresses; the kind of an address is read off its prefix; sizes follow
  the usual shape of 10 bytes of overhead, 58 per input and 43 per output; the funding
  estimate is what the outputs and the fee need beyond the inputs; coin selection spends
  every candidate and returns what is left above the fee as change without address.
\<close>

definition kindOf :: "string \<Rightarrow> string" where
  "kindOf a =
     (if prefix ''bcrt1p'' a then ''p2tr''
      else if prefix ''bcrt1q'' a then ''p2wpkh''
      else if prefix ''2'' a then ''p2sh''
      else ''p2pkh'')"

definition demoBytes :: "bs_input list \<Rightarrow> tx_output list \<Rightarrow> int" where
  "demoBytes ins outs = 10 + 58 * int (length ins) + 43 * int (length outs)"

definition demoFee :: "real option \<Rightarrow> int \<Rightarrow> int" where
  "demoFee r b = (case r of None \<Rightarrow> 0 | Some x \<Rightarrow> \<lceil>x * real_of_int b\<rceil>)"

definition demoFunding :: "bs_input list \<Rightarrow> tx_output list \<Rightarrow> real option \<Rightarrow> int" where
  "demoFunding ins outs r =
     sum_list (map out_value outs) + demoFee r (demoBytes ins outs) - sum_list (map bs_value ins)"

definition demoSelect :: "bs_input list \<Rightarrow> output_req list \<Rightarrow> real \<Rightarrow> string \<Rightarrow> cs_result" where
  "demoSelect cands outs r changeAddress =
     (let fee = \<lceil>r * real_of_int (10 + 58 * int (length cands) + 43 * (int (length outs) + 1))\<rceil>;
          change = sum_list (map bs_value cands) - sum_list (map amount outs) - fee;
          kept = map (\<lambda>out. \<lparr>cs_address = Some (address out), cs_value = Some (amount out)\<rparr>) outs
      in if change < 0 then \<lparr>cs_inputs = None, cs_outputs = None\<rparr>
         else if change \<le> 546 then \<lparr>cs_inputs = Some cands, cs_outputs = Some kept\<rparr>
         else \<lparr>cs_inputs = Some cands,
               cs_outputs = Some (kept @ [\<lparr>cs_address = None, cs_value = Some change\<rparr>])\<rparr>)"

definition demoProcessInput :: "utxo \<Rightarrow> string \<Rightarrow> network \<Rightarrow> error + psbt_input" where
  "demoProcessInput u pk n =
     Inr \<lparr>hash = utxo_txid u, index = utxo_n u,
          witnessUtxo = Some \<lparr>wu_script = scriptPubKey_address u, wu_value = utxo_sats u\<rparr>,
          tapInternalKey = None, tapMerkleRoot = None, sighashType = None, redeemScript = None\<rparr>"

definition demoP2tr :: "string \<Rightarrow> network \<Rightarrow> string list \<Rightarrow> payment" where
  "demoP2tr key n leaves =
     \<lparr>pay_address = Some (''bcrt1p'' @ key @ concat leaves),
      pay_output = Some (''bcrt1p'' @ key @ concat leaves),
      pay_hash = Some (concat leaves)\<rparr>"

definition demoScript :: "string \<Rightarrow> envelope list \<Rightarrow> string" where
  "demoScript xkey es =
     xkey @ concat (map (\<lambda>e. mediaType e @ ''|'' @ receiverAddress e @ ''|'' @ mediaContent e) es)"

definition sellerAddr :: string where
  "sellerAddr = ''bcrt1qseller''"

definition buyerAddr :: string where
  "buyerAddr = ''bcrt1qbuyer''"

definition demoInscriptions :: "string \<Rightarrow> inscription list option" where
  "demoInscriptions outpoint =
     (if outpoint = ''a1:0'' \<or> outpoint = ''a2:0''
      then Some [\<lparr>insc_outpoint = outpoint, insc_owner = sellerAddr\<rparr>]
      else if outpoint = ''a3:0'' then Some [\<lparr>insc_outpoint = outpoint, insc_owner = ''bcrt1qother''\<rparr>]
      else Some [])"

definition demoUnspents :: "string \<Rightarrow> utxo list option" where
  "demoUnspents a =
     (if a = buyerAddr
      then Some [\<lparr>utxo_txid = ''f0'', utxo_n = 1, utxo_sats = 100000, scriptPubKey_address = buyerAddr\<rparr>]
      else Some [])"

definition demoEnv :: env where
  "demoEnv =
     \<lparr>getAddressType = (\<lambda>a n. kindOf a),
      getScriptType = (\<lambda>scr n. \<lparr>si_type = kindOf scr, si_address = Some scr\<rparr>),
      isP2TR = (\<lambda>scr n. kindOf scr = ''p2tr''),
      toXOnly = (\<lambda>k. drop 2 k),
      toOutputScript = (\<lambda>a n. if a = [] then None else Some a),
      getId = (\<lambda>t. ''t'' @ concat (map fst (tx_ins t))),
      compile = (\<lambda>cs. concat (map (\<lambda>c. case c of Push d \<Rightarrow> d | OP_CHECKSIG \<Rightarrow> ''ac'') cs)),
      p2tr = demoP2tr,
      jsonStringify = (\<lambda>kvs. concat (map (\<lambda>(k, v). k @ ''='' @ v @ '';'') kvs)),
      buildWitnessScriptV2 = demoScript,
      getInscriptions = demoInscriptions,
      getUnspents = demoUnspents,
      processInput = demoProcessInput,
      coinSelect = demoSelect,
      funding = demoFunding,
      transactionBytes = demoBytes\<rparr>"

text \<open>A seller transaction: the inscription (600 satoshi) as the only input, paid on to an
  escrow address, and the price of 1000 satoshi paid to the seller.\<close>

definition sellerPsbt :: "string \<Rightarrow> psbt" where
  "sellerPsbt h =
     \<lparr>inputs = [\<lparr>hash = h, index = 0,
                  witnessUtxo = Some \<lparr>wu_script = sellerAddr, wu_value = 600\<rparr>,
                  tapInternalKey = None, tapMerkleRoot = None, sighashType = Some 129,
                  redeemScript = None\<rparr>],
      txOutputs = [\<lparr>out_script = ''bcrt1pescrow'' @ h, out_value = 600\<rparr>,
                   \<lparr>out_script = sellerAddr, out_value = 1000\<rparr>]\<rparr>"

definition demoConfig :: config where
  "demoConfig =
     \<lparr>network = regtest, chain = bitcoin, escrowPublicKey = ''03ee'',
      inscriptionsPsbts = [sellerPsbt ''a1'', sellerPsbt ''a2''],
      buyerAddress = buyerAddr, buyerPublicKey = ''02bb'', receiveAddress = ''bcrt1preceive'',
      effectiveFeeRate = 8,
      extraOutputs = [\<lparr>address = ''bcrt1qmarket'', amount = 1000\<rparr>]\<rparr>"

definition newSession :: session where
  "newSession = \<lparr>buyerCommitPaymentAddress = None, buyerUtxos = [], firstTxId = None\<rparr>"

definition twoInputPsbt :: psbt where
  "twoInputPsbt = addInput (sellerPsbt ''a1'')
     \<lparr>hash = ''c7'', index = 3, witnessUtxo = Some \<lparr>wu_script = sellerAddr, wu_value = 5000\<rparr>,
      tapInternalKey = None, tapMerkleRoot = None, sighashType = Some 129, redeemScript = None\<rparr>"

definition mixedPsbt :: psbt where
  "mixedPsbt =
     \<lparr>inputs = [], 
      txOutputs = [\<lparr>out_script = ''bcrt1pcommit'', out_value = 1424\<rparr>,
                   \<lparr>out_script = ''bcrt1qchange'', out_value = 7000\<rparr>,
                   \<lparr>out_script = ''1legacy'', out_value = 900\<rparr>]\<rparr>"

definition legacyConfig :: config where
  "legacyConfig = demoConfig\<lparr>buyerAddress := ''1legacy''\<rparr>"

definition readySession :: session where
  "readySession =
     \<lparr>buyerCommitPaymentAddress = Some \<lparr>pay_address = Some ''bcrt1pcommit'', pay_output = Some ''bcrt1pcommit'', pay_hash = Some ''c0ffee''\<rparr>,
      buyerUtxos = [], firstTxId = Some ''f1''\<rparr>"

definition absentConfig :: config where
  "absentConfig = demoConfig\<lparr>inscriptionsPsbts := [sellerPsbt ''a1'', sellerPsbt ''a9'']\<rparr>"

definition bareInput :: psbt_input where
  "bareInput = \<lparr>hash = ''a1'', index = 0, witnessUtxo = None, tapInternalKey = None,
                 tapMerkleRoot = None, sighashType = None, redeemScript = None\<rparr>"

definition barePsbt :: psbt where
  "barePsbt = \<lparr>inputs = [bareInput], txOutputs = txOutputs (sellerPsbt ''a1'')\<rparr>"

definition demoSession :: "payment option \<Rightarrow> string option \<Rightarrow> session" where
  "demoSession pay fid =
     \<lparr>buyerCommitPaymentAddress = pay,
      buyerUtxos = [\<lparr>utxo_txid = ''f0'', utxo_n = 1, utxo_sats = 100000, scriptPubKey_address = buyerAddr\<rparr>],
      firstTxId = fid\<rparr>"

definition commitScript :: string where
  "commitScript = ''bcrt1pbbbbacbbapplication/json;charset=utf-8|bcrt1qbuyer|buyerPublicKey=02bb;buyerAddress=bcrt1qbuyer;uniqueId=uniqueId;''"

definition commitHash :: string where
  "commitHash = ''bbacbbapplication/json;charset=utf-8|bcrt1qbuyer|buyerPublicKey=02bb;buyerAddress=bcrt1qbuyer;uniqueId=uniqueId;''"

definition commitPay :: payment where
  "commitPay = \<lparr>pay_address = Some commitScript, pay_output = Some commitScript,
     pay_hash = Some commitHash\<rparr>"

definition demoFirst :: "int \<Rightarrow> psbt" where
  "demoFirst c =
     \<lparr>inputs = [\<lparr>hash = ''f0'', index = 1,
                  witnessUtxo = Some \<lparr>wu_script = buyerAddr, wu_value = 100000\<rparr>,
                  tapInternalKey = None, tapMerkleRoot = None, sighashType = None,
                  redeemScript = None\<rparr>],
      txOutputs = [\<lparr>out_script = commitScript, out_value = 1424\<rparr>,
                   \<lparr>out_script = commitScript, out_value = 1424\<rparr>,
                   \<lparr>out_script = commitScript, out_value = c\<rparr>,
                   \<lparr>out_script = buyerAddr, out_value = 96672 - c\<rparr>]\<rparr>"

definition demoSecond :: "string \<Rightarrow> nat \<Rightarrow> psbt" where
  "demoSecond h i =
     \<lparr>inputs = inputs (sellerPsbt h) @
                [\<lparr>hash = ''tf0'', index = i,
                  witnessUtxo = Some \<lparr>wu_script = commitScript, wu_value = 1424\<rparr>,
                  tapInternalKey = Some ''bb'', tapMerkleRoot = Some commitHash,
                  sighashType = Some 1, redeemScript = None\<rparr>],
      txOutputs = txOutputs (sellerPsbt h)\<rparr>"

definition demoEscrowInput :: "string \<Rightarrow> psbt_input" where
  "demoEscrowInput h =
     \<lparr>hash = ''t'' @ h @ ''tf0'', index = 0,
      witnessUtxo = Some \<lparr>wu_script = ''bcrt1pescrow'' @ h, wu_value = 600\<rparr>,
      tapInternalKey = Some ''ee'',
      tapMerkleRoot = Some (''eeaceeapplication/json;charset=utf-8||inscriptionOutpoint='' @ h @ '':0;''),
      sighashType = Some 1, redeemScript = None\<rparr>"

definition demoThird :: "int \<Rightarrow> psbt" where
  "demoThird c =
     \<lparr>inputs = [demoEscrowInput ''a1'', demoEscrowInput ''a2'',
                 \<lparr>hash = ''tf0'', index = 2,
                  witnessUtxo = Some \<lparr>wu_script = commitScript, wu_value = c\<rparr>,
                  tapInternalKey = Some ''bb'', tapMerkleRoot = Some commitHash,
                  sighashType = Some 1, redeemScript = None\<rparr>],
      txOutputs = [\<lparr>out_script = ''bcrt1preceive'', out_value = 600\<rparr>,
                   \<lparr>out_script = ''bcrt1preceive'', out_value = 600\<rparr>,
                   \<lparr>out_script = ''bcrt1qmarket'', out_value = 1000\<rparr>]\<rparr>"

definition builtSession :: session where
  "builtSession = demoSession (Some commitPay) (Some ''tf0'')"

definition spinEnv :: env where
  "spinEnv = demoEnv
     \<lparr>coinSelect := (\<lambda>cands outs r changeAddress.
          \<lparr>cs_inputs = Some cands,
           cs_outputs = Some (map (\<lambda>out. \<lparr>cs_address = Some (address out), cs_value = Some (amount out)\<rparr>) outs)\<rparr>),
      funding := (\<lambda>ins outs r. 1)\<rparr>"

definition lowFeeConfig :: config where
  "lowFeeConfig = demoConfig\<lparr>effectiveFeeRate := 1\<rparr>"

section \<open>Properties of the builders\<close>

subsection \<open>Reading the concrete instance\<close>

lemma demoEnv_simps [simp]:
  "getAddressType demoEnv = (\<lambda>a n. kindOf a)"
  "getScriptType demoEnv = (\<lambda>scr n. \<lparr>si_type = kindOf scr, si_address = Some scr\<rparr>)"
  "isP2TR demoEnv = (\<lambda>scr n. kindOf scr = ''p2tr'')"
  "toXOnly demoEnv = (\<lambda>k. drop 2 k)"
  "toOutputScript demoEnv = (\<lambda>a n. if a = [] then None else Some a)"
  "getId demoEnv = (\<lambda>t. ''t'' @ concat (map fst (tx_ins t)))"
  "compile demoEnv = (\<lambda>cs. concat (map (\<lambda>c. case c of Push d \<Rightarrow> d | OP_CHECKSIG \<Rightarrow> ''ac'') cs))"
  "p2tr demoEnv = demoP2tr"
  "jsonStringify demoEnv = (\<lambda>kvs. concat (map (\<lambda>(k, v). k @ ''='' @ v @ '';'') kvs))"
  "buildWitnessScriptV2 demoEnv = demoScript"
  "getInscriptions demoEnv = demoInscriptions"
  "getUnspents demoEnv = demoUnspents"
  "processInput demoEnv = demoProcessInput"
  "coinSelect demoEnv = demoSelect"
  "funding demoEnv = demoFunding"
  "transactionBytes demoEnv = demoBytes"
  by (simp_all add: demoEnv_def)

lemma demoConfig_simps [simp]:
  "network demoConfig = regtest"
  "chain demoConfig = bitcoin"
  "escrowPublicKey demoConfig = ''03ee''"
  "inscriptionsPsbts demoConfig = [sellerPsbt ''a1'', sellerPsbt ''a2'']"
  "buyerAddress demoConfig = buyerAddr"
  "buyerPublicKey demoConfig = ''02bb''"
  "receiveAddress demoConfig = ''bcrt1preceive''"
  "effectiveFeeRate demoConfig = 8"
  "extraOutputs demoConfig = [\<lparr>address = ''bcrt1qmarket'', amount = 1000\<rparr>]"
  by (simp_all add: demoConfig_def)

lemma string_of_nat_digit: "n < 10 \<Longrightarrow> string_of_nat n = [''0123456789'' ! n]"
  by (simp add: string_of_nat.simps)

lemma outpoint_a1:
  "outpointOf \<lparr>hash = h, index = 0, witnessUtxo = w, tapInternalKey = k, tapMerkleRoot = m,
               sighashType = t, redeemScript = r\<rparr> = h @ '':0''"
  by (simp add: outpointOf_def string_of_nat_digit)

subsection \<open>Validation of a batch\<close>

lemma lefts_empty_iff: "lefts rs = [] \<longleftrightarrow> (\<forall>r \<in> set rs. \<exists>a. r = Inr a)"
  by (induction rs rule: lefts.induct) auto

lemma lefts_member: "e \<in> set (lefts rs) \<longleftrightarrow> Inl e \<in> set rs"
  by (induction rs rule: lefts.induct) auto

lemma rights_member: "a \<in> set (rights rs) \<longleftrightarrow> Inr a \<in> set rs"
  by (induction rs rule: rights.induct) auto

lemma validate_ok_iff:
  "fst (validateInscriptionPsbts E C ps) = Inr () \<longleftrightarrow> (\<forall>p\<in>set ps. validatePsbt E C p = Inr ())"
proof -
  let ?started = "map (sellerOf E C) ps"
  let ?checked = "map (checkInscription E) (rights ?started)"
  have "fst (validateInscriptionPsbts E C ps) = Inr () \<longleftrightarrow> lefts ?started = [] \<and> lefts ?checked = []"
    by (simp add: validateInscriptionPsbts_def Let_def split: list.splits)
  also have "\<dots> \<longleftrightarrow> (\<forall>p\<in>set ps. validatePsbt E C p = Inr ())"
  proof
    assume h: "lefts ?started = [] \<and> lefts ?checked = []"
    show "\<forall>p\<in>set ps. validatePsbt E C p = Inr ()"
    proof
      fix p assume "p \<in> set ps"
      with h obtain q where q: "sellerOf E C p = Inr q"
        by (auto simp: lefts_empty_iff)
      with \<open>p \<in> set ps\<close> have "q \<in> set (rights ?started)"
        by (force simp: rights_member)
      with h have "checkInscription E q = Inr ()"
        by (auto simp: lefts_empty_iff)
      with q show "validatePsbt E C p = Inr ()"
        by (simp add: validatePsbt_def)
    qed
  next
    assume h: "\<forall>p\<in>set ps. validatePsbt E C p = Inr ()"
    have a: "lefts ?started = []"
      unfolding lefts_empty_iff
    proof
      fix r assume "r \<in> set ?started"
      then obtain p where p: "p \<in> set ps" "r = sellerOf E C p" by auto
      with h have "validatePsbt E C p = Inr ()" by simp
      with p show "\<exists>a. r = Inr a"
        by (cases "sellerOf E C p") (simp_all add: validatePsbt_def)
    qed
    have "lefts ?checked = []"
      unfolding lefts_empty_iff
    proof
      fix r assume "r \<in> set ?checked"
      then obtain q where q: "q \<in> set (rights ?started)" "r = checkInscription E q" by auto
      then obtain p where p: "p \<in> set ps" "sellerOf E C p = Inr q"
        by (auto simp: rights_member)
      with h have "validatePsbt E C p = Inr ()" by simp
      with p have "checkInscription E q = Inr ()"
        by (simp add: validatePsbt_def)
      with q show "\<exists>a. r = Inr a" by simp
    qed
    with a show "lefts ?started = [] \<and> lefts ?checked = []" by simp
  qed
  finally show ?thesis .
qed

lemma validate_error_origin:
  assumes "fst (validateInscriptionPsbts E C ps) = Inl e"
  shows "\<exists>p\<in>set ps. validatePsbt E C p = Inl e"
proof -
  let ?started = "map (sellerOf E C) ps"
  let ?checked = "map (checkInscription E) (rights ?started)"
  show ?thesis
  proof (cases "lefts ?started")
    case (Cons e' es)
    with assms have "e' = e"
      by (simp add: validateInscriptionPsbts_def Let_def)
    with Cons have "e \<in> set (lefts ?started)" by simp
    then obtain p where "p \<in> set ps" "sellerOf E C p = Inl e"
      by (auto simp: lefts_member)
    then have "p \<in> set ps" "validatePsbt E C p = Inl e"
      by (simp_all add: validatePsbt_def)
    then show ?thesis by blast
  next
    case Nil
    with assms obtain es where "lefts ?checked = e # es"
      by (auto simp: validateInscriptionPsbts_def Let_def split: list.splits)
    then have "e \<in> set (lefts ?checked)" by simp
    then obtain q where q: "q \<in> set (rights ?started)" "checkInscription E q = Inl e"
      by (auto simp: lefts_member)
    then obtain p where "p \<in> set ps" "sellerOf E C p = Inr q"
      by (auto simp: rights_member)
    with q have "p \<in> set ps" "validatePsbt E C p = Inl e"
      by (simp_all add: validatePsbt_def)
    then show ?thesis by blast
  qed
qed


lemma validatePsbt_ok_iff:
  "validatePsbt E C p = Inr () \<longleftrightarrow>
     (\<exists>i rest w a res. inputs p = i # rest \<and> witnessUtxo i = Some w \<and>
        si_address (getScriptType E (wu_script w) (network C)) = Some a \<and> a \<noteq> [] \<and>
        getInscriptions E (outpointOf i) = Some res \<and>
        (\<exists>x\<in>set res. insc_outpoint x = outpointOf i \<and> insc_owner x = a))"
  by (auto simp: validatePsbt_def sellerOf_def checkInscription_def list_ex_iff
           split: list.splits option.splits sum.splits if_splits)


subsection \<open>Output chaining and the second transaction\<close>

lemma kindOf_simps [simp]:
  "kindOf ''bcrt1pcommit'' = ''p2tr''"
  "kindOf ''bcrt1qchange'' = ''p2wpkh''"
  "kindOf ''1legacy'' = ''p2pkh''"
  "kindOf sellerAddr = ''p2wpkh''"
  "kindOf buyerAddr = ''p2wpkh''"
  by (simp_all add: kindOf_def sellerAddr_def buyerAddr_def)

text \<open>
  Claim C9. For an output index inside the transaction, \<open>generateInputFromPSBTOutput\<close>
  returns an input carrying the x-only key of the spender together with the script and value
  of the output when the script is taproot, an input with the script and value alone when
  it is native segwit pubkey-hash, and fails with "scripts other than p2tr and p2wpkh are
  not supported!" for every other script type.
\<close>

theorem generateInput_dispatch:
  assumes "outputIndex < length (txOutputs p)"
  shows "(si_type (getScriptType E (out_script (txOutputs p ! outputIndex)) (network C)) = ''p2tr'' \<longrightarrow>
            generateInputFromPSBTOutput E C p outputIndex pk sh =
              Inr \<lparr>hash = getId E (unsignedTx p), index = outputIndex,
                   witnessUtxo = Some \<lparr>wu_script = out_script (txOutputs p ! outputIndex),
                                       wu_value = out_value (txOutputs p ! outputIndex)\<rparr>,
                   tapInternalKey = Some (toXOnly E pk), tapMerkleRoot = None,
                   sighashType = (case sh of None \<Rightarrow> None | Some t \<Rightarrow> if t = 0 then None else Some t),
                   redeemScript = None\<rparr>)
       \<and> (si_type (getScriptType E (out_script (txOutputs p ! outputIndex)) (network C)) = ''p2wpkh'' \<longrightarrow>
            generateInputFromPSBTOutput E C p outputIndex pk sh =
              Inr \<lparr>hash = getId E (unsignedTx p), index = outputIndex,
                   witnessUtxo = Some \<lparr>wu_script = out_script (txOutputs p ! outputIndex),
                                       wu_value = out_value (txOutputs p ! outputIndex)\<rparr>,
                   tapInternalKey = None, tapMerkleRoot = None,
                   sighashType = (case sh of None \<Rightarrow> None | Some t \<Rightarrow> if t = 0 then None else Some t),
                   redeemScript = None\<rparr>)
       \<and> (si_type (getScriptType E (out_script (txOutputs p ! outputIndex)) (network C)) \<noteq> ''p2tr'' \<and>
          si_type (getScriptType E (out_script (txOutputs p ! outputIndex)) (network C)) \<noteq> ''p2wpkh'' \<longrightarrow>
            generateInputFromPSBTOutput E C p outputIndex pk sh =
              Inl (OrditSDKError ''scripts other than p2tr and p2wpkh are not supported!''))"
  using assms by (simp add: generateInputFromPSBTOutput_def Let_def)

theorem generateInput_dispatch_witness:
  "length (txOutputs mixedPsbt) = 3
   \<and> generateInputFromPSBTOutput demoEnv demoConfig mixedPsbt 0 ''02bb'' (Some SIGHASH_ALL) =
       Inr \<lparr>hash = ''t'', index = 0,
            witnessUtxo = Some \<lparr>wu_script = ''bcrt1pcommit'', wu_value = 1424\<rparr>,
            tapInternalKey = Some ''bb'', tapMerkleRoot = None, sighashType = Some 1,
            redeemScript = None\<rparr>
   \<and> generateInputFromPSBTOutput demoEnv demoConfig mixedPsbt 1 ''02bb'' (Some SIGHASH_ALL) =
       Inr \<lparr>hash = ''t'', index = 1,
            witnessUtxo = Some \<lparr>wu_script = ''bcrt1qchange'', wu_value = 7000\<rparr>,
            tapInternalKey = None, tapMerkleRoot = None, sighashType = Some 1,
            redeemScript = None\<rparr>
   \<and> generateInputFromPSBTOutput demoEnv demoConfig mixedPsbt 2 ''02bb'' (Some SIGHASH_ALL) =
       Inl (OrditSDKError ''scripts other than p2tr and p2wpkh are not supported!'')"
  using generateInput_dispatch [of 0 mixedPsbt demoEnv demoConfig "''02bb''" "Some SIGHASH_ALL"]
        generateInput_dispatch [of 1 mixedPsbt demoEnv demoConfig "''02bb''" "Some SIGHASH_ALL"]
        generateInput_dispatch [of 2 mixedPsbt demoEnv demoConfig "''02bb''" "Some SIGHASH_ALL"]
  by (simp add: mixedPsbt_def unsignedTx_def SIGHASH_ALL_def)

text \<open>
  Claim C8. Where the output of the first transaction at \<open>outputIndex\<close> exists and is taproot
  or native segwit, and the session holds the commitment payment and the id of the first
  transaction, \<open>createSecondTransaction\<close> returns the seller transaction with one input
  appended: the inputs of the seller come first and unchanged, the outputs are exactly those
  of the seller, and the new input spends that output of the first transaction with
  \<open>SIGHASH_ALL\<close> and the merkle root of the buyer commitment address.
\<close>

theorem createSecondTransaction_appends:
  assumes "outputIndex < length (txOutputs firstPsbt)"
    and "si_type (getScriptType E (out_script (txOutputs firstPsbt ! outputIndex)) (network C)) = ''p2tr''
         \<or> si_type (getScriptType E (out_script (txOutputs firstPsbt ! outputIndex)) (network C)) = ''p2wpkh''"
    and "buyerCommitPaymentAddress s = Some pay"
    and "pay_hash pay = Some merkleRoot"
    and "firstTxId s = Some fid"
  shows "\<exists>g p'. createSecondTransaction E C s firstPsbt outputIndex inscriptionPsbt = Inr p'
           \<and> inputs p' = inputs inscriptionPsbt @ [g]
           \<and> txOutputs p' = txOutputs inscriptionPsbt
           \<and> hash g = fid \<and> index g = outputIndex
           \<and> witnessUtxo g = Some \<lparr>wu_script = out_script (txOutputs firstPsbt ! outputIndex),
                                    wu_value = out_value (txOutputs firstPsbt ! outputIndex)\<rparr>
           \<and> sighashType g = Some SIGHASH_ALL
           \<and> tapMerkleRoot g = Some merkleRoot"
  using assms
  by (auto simp: createSecondTransaction_def generateInputFromPSBTOutput_def Let_def addInput_def
                 SIGHASH_ALL_def)

theorem createSecondTransaction_appends_witness:
  "\<exists>g p'. createSecondTransaction demoEnv demoConfig readySession mixedPsbt 0 (sellerPsbt ''a1'') = Inr p'
     \<and> inputs p' = inputs (sellerPsbt ''a1'') @ [g]
     \<and> txOutputs p' = txOutputs (sellerPsbt ''a1'')
     \<and> hash g = ''f1'' \<and> index g = 0
     \<and> witnessUtxo g = Some \<lparr>wu_script = ''bcrt1pcommit'', wu_value = 1424\<rparr>
     \<and> sighashType g = Some SIGHASH_ALL
     \<and> tapMerkleRoot g = Some ''c0ffee''"
  using createSecondTransaction_appends
          [of 0 mixedPsbt demoEnv demoConfig readySession
              "\<lparr>pay_address = Some ''bcrt1pcommit'', pay_output = Some ''bcrt1pcommit'', pay_hash = Some ''c0ffee''\<rparr>"
              "''c0ffee''" "''f1''" "sellerPsbt ''a1''"]
  by (simp add: mixedPsbt_def readySession_def)

subsection \<open>Failing before anything is built\<close>




lemma demoInscriptions_simps [simp]:
  "demoInscriptions ''a1:0'' = Some [\<lparr>insc_outpoint = ''a1:0'', insc_owner = sellerAddr\<rparr>]"
  "demoInscriptions ''a2:0'' = Some [\<lparr>insc_outpoint = ''a2:0'', insc_owner = sellerAddr\<rparr>]"
  "demoInscriptions ''a9:0'' = Some []"
  by (simp_all add: demoInscriptions_def)

lemma absentConfig_simps [simp]:
  "network absentConfig = regtest"
  "inscriptionsPsbts absentConfig = [sellerPsbt ''a1'', sellerPsbt ''a9'']"
  "buyerAddress absentConfig = buyerAddr"
  by (simp_all add: absentConfig_def)


text \<open>
  Claim C6, as the code has it. With at least one seller transaction, a buyer address of any
  type other than p2sh, p2wsh, p2wpkh and p2tr (a legacy p2pkh address among them) makes
  \<open>buildTransactions\<close> fail with "Buyer address <address> must be a segwit/taproot/p2sh
  address", before any request is sent to the data source: neither the inscriptions nor the
  outputs of the buyer have been fetched.
\<close>

theorem legacy_buyer_rejected:
  assumes "inscriptionsPsbts C \<noteq> []"
    and "getAddressType E (buyerAddress C) (network C) \<notin> {''p2sh'', ''p2wsh'', ''p2wpkh'', ''p2tr''}"
  shows "buildTransactions E C s uniqueId =
           Some (Inl (OrditSDKError
                   (''Buyer address '' @ buyerAddress C @ '' must be a segwit/taproot/p2sh address'')), [])"
  using assms by (simp add: buildTransactions_def Let_def)

lemma legacyConfig_simps [simp]:
  "network legacyConfig = regtest"
  "inscriptionsPsbts legacyConfig = [sellerPsbt ''a1'', sellerPsbt ''a2'']"
  "buyerAddress legacyConfig = ''1legacy''"
  by (simp_all add: legacyConfig_def)

theorem legacy_buyer_rejected_witness:
  "getAddressType demoEnv (buyerAddress legacyConfig) (network legacyConfig) = ''p2pkh''
   \<and> buildTransactions demoEnv legacyConfig newSession ''uniqueId'' =
       Some (Inl (OrditSDKError ''Buyer address 1legacy must be a segwit/taproot/p2sh address''), [])"
  using legacy_buyer_rejected [of legacyConfig demoEnv newSession "''uniqueId''"]
  by simp

text \<open>The message of that error does not contain the text "must be a segwit/taproot address".\<close>

theorem legacy_buyer_message_counterexample:
  "buildTransactions demoEnv legacyConfig newSession ''uniqueId'' =
     Some (Inl (OrditSDKError ''Buyer address 1legacy must be a segwit/taproot/p2sh address''), [])
   \<and> \<not> sublist ''must be a segwit/taproot address''
          ''Buyer address 1legacy must be a segwit/taproot/p2sh address''"
  by (simp add: buildTransactions_def Let_def sublist_code)

text \<open>A seller transaction with two inputs passes the validation.\<close>

theorem validator_accepts_two_inputs_counterexample:
  "fst (validateInscriptionPsbts demoEnv demoConfig [twoInputPsbt]) = Inr ()
   \<and> length (inputs twoInputPsbt) = 2"
  by (simp add: validateInscriptionPsbts_def Let_def sellerOf_def twoInputPsbt_def sellerPsbt_def
                addInput_def outpoint_a1 checkInscription_def sellerAddr_def)

text \<open>
  Claim C5, as the code has it. The batch passes exactly when every seller transaction
  passes, and a batch that fails does so with the error of one of its transactions. A
  transaction passes exactly when it has a first input, that input has witness data from
  whose script a seller address derives, and the index holds a record at the outpoint of
  that input owned by this seller. Missing witness data on the first input is "invalid
  seller psbt"; records none of which is owned by the seller are "Inscription at <outpoint>
  does not match". How many inputs follow the first one is not looked at.
\<close>

theorem validator_checks_first_input:
  "(fst (validateInscriptionPsbts E C ps) = Inr () \<longleftrightarrow> (\<forall>p\<in>set ps. validatePsbt E C p = Inr ()))
   \<and> (\<forall>e. fst (validateInscriptionPsbts E C ps) = Inl e \<longrightarrow> (\<exists>p\<in>set ps. validatePsbt E C p = Inl e))
   \<and> (validatePsbt E C p = Inr () \<longleftrightarrow>
        (\<exists>i rest w a res. inputs p = i # rest \<and> witnessUtxo i = Some w \<and>
           si_address (getScriptType E (wu_script w) (network C)) = Some a \<and> a \<noteq> [] \<and>
           getInscriptions E (outpointOf i) = Some res \<and>
           (\<exists>x\<in>set res. insc_outpoint x = outpointOf i \<and> insc_owner x = a)))
   \<and> (\<forall>i rest. inputs p = i # rest \<and> witnessUtxo i = None \<longrightarrow>
          validatePsbt E C p = Inl (OrditSDKError ''invalid seller psbt''))
   \<and> (\<forall>i rest w a res. inputs p = i # rest \<and> witnessUtxo i = Some w \<and>
          si_address (getScriptType E (wu_script w) (network C)) = Some a \<and> a \<noteq> [] \<and>
          getInscriptions E (outpointOf i) = Some res \<and> res \<noteq> [] \<and>
          \<not> (\<exists>x\<in>set res. insc_outpoint x = outpointOf i \<and> insc_owner x = a) \<longrightarrow>
          validatePsbt E C p = Inl (OrditSDKError (''Inscription at '' @ outpointOf i @ '' does not match'')))"
proof -
  have a: "fst (validateInscriptionPsbts E C ps) = Inr () \<longleftrightarrow> (\<forall>p\<in>set ps. validatePsbt E C p = Inr ())"
    by (rule validate_ok_iff)
  have b: "\<forall>e. fst (validateInscriptionPsbts E C ps) = Inl e \<longrightarrow> (\<exists>p\<in>set ps. validatePsbt E C p = Inl e)"
    using validate_error_origin by blast
  have c: "\<forall>i rest. inputs p = i # rest \<and> witnessUtxo i = None \<longrightarrow>
          validatePsbt E C p = Inl (OrditSDKError ''invalid seller psbt'')"
    by (simp add: validatePsbt_def sellerOf_def)
  have d: "\<forall>i rest w a res. inputs p = i # rest \<and> witnessUtxo i = Some w \<and>
          si_address (getScriptType E (wu_script w) (network C)) = Some a \<and> a \<noteq> [] \<and>
          getInscriptions E (outpointOf i) = Some res \<and> res \<noteq> [] \<and>
          \<not> (\<exists>x\<in>set res. insc_outpoint x = outpointOf i \<and> insc_owner x = a) \<longrightarrow>
          validatePsbt E C p = Inl (OrditSDKError (''Inscription at '' @ outpointOf i @ '' does not match''))"
    by (auto simp: validatePsbt_def sellerOf_def checkInscription_def list_ex_iff)
  from a b c d validatePsbt_ok_iff [of E C p] show ?thesis by blast
qed


lemma demoInscriptions_a3 [simp]:
  "demoInscriptions ''a3:0'' = Some [\<lparr>insc_outpoint = ''a3:0'', insc_owner = ''bcrt1qother''\<rparr>]"
  by (simp add: demoInscriptions_def)

theorem validator_checks_first_input_witness:
  "fst (validateInscriptionPsbts demoEnv demoConfig [sellerPsbt ''a1'', twoInputPsbt]) = Inr ()
   \<and> validatePsbt demoEnv demoConfig twoInputPsbt = Inr ()
   \<and> validatePsbt demoEnv demoConfig barePsbt = Inl (OrditSDKError ''invalid seller psbt'')
   \<and> validatePsbt demoEnv demoConfig (sellerPsbt ''a3'') =
       Inl (OrditSDKError ''Inscription at a3:0 does not match'')"
proof -
  have ok1: "validatePsbt demoEnv demoConfig (sellerPsbt ''a1'') = Inr ()"
    using validator_checks_first_input [of demoEnv demoConfig "[]" "sellerPsbt ''a1''"]
    by (simp add: sellerPsbt_def outpoint_a1 sellerAddr_def)
  have ok2: "validatePsbt demoEnv demoConfig twoInputPsbt = Inr ()"
    using validator_checks_first_input [of demoEnv demoConfig "[]" twoInputPsbt]
    by (simp add: twoInputPsbt_def addInput_def sellerPsbt_def outpoint_a1 sellerAddr_def)
  have batch: "fst (validateInscriptionPsbts demoEnv demoConfig [sellerPsbt ''a1'', twoInputPsbt]) = Inr ()"
    using validator_checks_first_input
            [of demoEnv demoConfig "[sellerPsbt ''a1'', twoInputPsbt]" twoInputPsbt] ok1 ok2
    by simp
  have bare: "validatePsbt demoEnv demoConfig barePsbt = Inl (OrditSDKError ''invalid seller psbt'')"
    using validator_checks_first_input [of demoEnv demoConfig "[]" barePsbt]
    by (simp add: barePsbt_def bareInput_def)
  have other: "validatePsbt demoEnv demoConfig (sellerPsbt ''a3'') =
       Inl (OrditSDKError ''Inscription at a3:0 does not match'')"
  proof -
    have "\<forall>i rest w a res. inputs (sellerPsbt ''a3'') = i # rest \<and> witnessUtxo i = Some w \<and>
          si_address (getScriptType demoEnv (wu_script w) (network demoConfig)) = Some a \<and> a \<noteq> [] \<and>
          getInscriptions demoEnv (outpointOf i) = Some res \<and> res \<noteq> [] \<and>
          \<not> (\<exists>x\<in>set res. insc_outpoint x = outpointOf i \<and> insc_owner x = a) \<longrightarrow>
          validatePsbt demoEnv demoConfig (sellerPsbt ''a3'') =
            Inl (OrditSDKError (''Inscription at '' @ outpointOf i @ '' does not match''))"
      using validator_checks_first_input [of demoEnv demoConfig "[]" "sellerPsbt ''a3''"] by blast
    then show ?thesis
      by (simp add: sellerPsbt_def outpoint_a1 sellerAddr_def)
  qed
  from batch ok2 bare other show ?thesis by simp
qed

subsection \<open>The concrete run, step by step\<close>

lemma commit_demo:
  "getBuyerCommitAddress demoEnv demoConfig (demoSession pay fid) ''02bb'' buyerAddr ''uniqueId'' =
     Inr (commitScript, demoSession (Some commitPay) fid)"
  by (simp add: getBuyerCommitAddress_def Let_def demoP2tr_def demoScript_def psbtNetwork_def
        commitScript_def commitPay_def commitHash_def buyerAddr_def demoSession_def)

lemma kind_commit [simp]: "kindOf commitScript = ''p2tr''"
  by (simp add: kindOf_def commitScript_def)

lemma funding_out_demo:
  "commitmentFundingOutput demoEnv demoConfig (demoSession (Some commitPay) fid) commitScript (sellerPsbt h)
     = Inr \<lparr>address = commitScript, amount = 1424\<rparr>"
  by (simp add: commitmentFundingOutput_def commitPay_def calculateFundingAmount_def addInput_def demoSession_def
        sellerPsbt_def dummyInput_def toBsInput_def inputValue_def demoFunding_def demoFee_def
        demoBytes_def BASE_FEERATE_def)


lemma first_demo:
  assumes "c \<noteq> 0" "c < 96126"
  shows "createFirstTransaction demoEnv demoConfig (demoSession (Some commitPay) fid)
           [\<lparr>address = commitScript, amount = 1424\<rparr>, \<lparr>address = commitScript, amount = 1424\<rparr>,
            \<lparr>address = commitScript, amount = c\<rparr>]
         = Inr (demoFirst c, builtSession)"
proof -
  have csn: "commitScript \<noteq> []" by (simp add: commitScript_def)
  show ?thesis
  using assms csn
  by (simp add: createFirstTransaction_def demoSession_def candidate_def
        demoProcessInput_def demoSelect_def Let_def BASE_FEERATE_def emptyPsbt_def addInput_def
        addOutput_def psbtNetwork_def firstTx_def demoFirst_def builtSession_def buyerAddr_def)
qed

lemma second_demo:
  assumes "i < 2"
  shows "createSecondTransaction demoEnv demoConfig builtSession (demoFirst c) i (sellerPsbt h) = Inr (demoSecond h i)"
proof -
  from assms have "i = 0 \<or> i = 1" by auto
  then show ?thesis
    by (auto simp: createSecondTransaction_def generateInputFromPSBTOutput_def Let_def demoFirst_def
        builtSession_def demoSession_def commitPay_def addInput_def demoSecond_def SIGHASH_ALL_def)
qed

lemma escrow_demo:
  "escrowInput demoEnv demoConfig (demoSecond h i) = Inr (demoEscrowInput h)"
  by (simp add: escrowInput_def demoSecond_def sellerPsbt_def outpoint_a1 getEscrowTaprootAddress_def
        Let_def demoP2tr_def demoScript_def generateInputFromPSBTOutput_def kindOf_def unsignedTx_def
        demoEscrowInput_def SIGHASH_ALL_def)

lemma third_demo:
  "createWithdrawTransaction demoEnv demoConfig builtSession (demoFirst c) (Suc (Suc 0))
     [demoSecond ''a1'' 0, demoSecond ''a2'' (Suc 0)] = Inr (demoThird c)"
  by (simp add: createWithdrawTransaction_def escrow_demo demoEscrowInput_def emptyPsbt_def
        addInput_def addOutput_def psbtNetwork_def generateInputFromPSBTOutput_def Let_def
        demoFirst_def builtSession_def demoSession_def commitPay_def demoThird_def SIGHASH_ALL_def)

lemma body_demo:
  assumes "c \<noteq> 0" "c < 96126"
  shows "feeLoopBody demoEnv demoConfig ''uniqueId'' (demoSession pay fid) c =
           Inr \<lparr>ls_session = builtSession, CPFPFunding = 7488, extraCPFPFunding = 7488 - c,
                firstTransactionPSBT = demoFirst c,
                secondTransactionPSBTs = [demoSecond ''a1'' 0, demoSecond ''a2'' 1],
                thirdTransactionPSBT = demoThird c\<rparr>"
proof -
  have up: "[0..<2] = [0, 1]" by (simp add: upt_rec)
  have v1: "getVBytes demoEnv demoConfig (demoFirst c) = 240"
    by (simp add: getVBytes_def demoBytes_def demoFirst_def)
  have v2: "getVBytes demoEnv demoConfig (demoSecond h i) = 212" for h i
    by (simp add: getVBytes_def demoBytes_def demoSecond_def sellerPsbt_def)
  have v3: "getVBytes demoEnv demoConfig (demoThird c) = 313"
    by (simp add: getVBytes_def demoBytes_def demoThird_def)
  have f1: "getTotalFees (demoFirst c) = 480"
    by (simp add: getTotalFees_def demoFirst_def inputValue_def)
  have f2: "getTotalFees (demoSecond h i) = 424" for h i
    by (simp add: getTotalFees_def demoSecond_def sellerPsbt_def inputValue_def)
  have fund: "calculateFundingAmount demoEnv (demoThird c) (js_div 6488 313) = 7488 - c"
    by (simp add: calculateFundingAmount_def demoFunding_def demoThird_def demoEscrowInput_def
          toBsInput_def inputValue_def demoFee_def demoBytes_def js_div_def)
  show ?thesis
    using assms
    by (simp add: feeLoopBody_def commit_demo funding_out_demo first_demo second_demo third_demo up
          Let_def v1 v2 v3 f1 f2 fund)
qed


lemma loop_demo:
  "feeLoop demoEnv demoConfig ''uniqueId'' (demoSession None None) 600 =
     Some (Inr \<lparr>ls_session = builtSession, CPFPFunding = 7488, extraCPFPFunding = 0,
                firstTransactionPSBT = demoFirst 7488,
                secondTransactionPSBTs = [demoSecond ''a1'' 0, demoSecond ''a2'' 1],
                thirdTransactionPSBT = demoThird 7488\<rparr>)"
proof -
  have one: "feeLoop demoEnv demoConfig ''uniqueId'' (demoSession None None) 600 =
             feeLoop demoEnv demoConfig ''uniqueId'' builtSession 7488"
    by (subst feeLoop.simps) (simp add: body_demo)
  have two: "feeLoop demoEnv demoConfig ''uniqueId'' builtSession 7488 =
     Some (Inr \<lparr>ls_session = builtSession, CPFPFunding = 7488, extraCPFPFunding = 0,
                firstTransactionPSBT = demoFirst 7488,
                secondTransactionPSBTs = [demoSecond ''a1'' 0, demoSecond ''a2'' 1],
                thirdTransactionPSBT = demoThird 7488\<rparr>)"
    unfolding builtSession_def
    by (subst feeLoop.simps) (simp add: body_demo builtSession_def)
  from one two show ?thesis by simp
qed

lemma run_demo:
  "buildTransactions demoEnv demoConfig newSession ''uniqueId'' =
     Some (Inr \<lparr>firstTransactionPSBTB64 = demoFirst 7488,
                secondTransactionPSBTB64s = [demoSecond ''a1'' 0, demoSecond ''a2'' 1],
                thirdTransactionPSBTB64 = demoThird 7488\<rparr>,
           [GetInscriptions ''a1:0'', GetInscriptions ''a2:0'', GetUnspents buyerAddr])"
proof -
  have sel: "sellerOf demoEnv demoConfig (sellerPsbt h) = Inr (h @ '':0'', sellerAddr)" for h
    by (simp add: sellerOf_def sellerPsbt_def outpoint_a1 sellerAddr_def)
  have v: "validateInscriptionPsbts demoEnv demoConfig [sellerPsbt ''a1'', sellerPsbt ''a2''] =
           (Inr (), [GetInscriptions ''a1:0'', GetInscriptions ''a2:0''])"
    by (simp add: validateInscriptionPsbts_def Let_def sel checkInscription_def)
  have u: "getBuyerUtxos demoEnv demoConfig newSession = (Inr (demoSession None None), [GetUnspents buyerAddr])"
    by (simp add: getBuyerUtxos_def demoUnspents_def demoSession_def newSession_def buyerAddr_def)
  show ?thesis
    by (simp add: buildTransactions_def Let_def v u loop_demo responseOf_def)
qed

subsection \<open>The loop\<close>

lemma feeLoopBody_Inr:
  assumes "feeLoopBody E C u s c = Inr st"
  obtains addr s1 outs first s2 seconds third where
    "getBuyerCommitAddress E C s (buyerPublicKey C) (buyerAddress C) u = Inr (addr, s1)"
    "mapE (commitmentFundingOutput E C s1 addr) (inscriptionsPsbts C) = Inr outs"
    "createFirstTransaction E C s1 (outs @ [\<lparr>address = addr, amount = c\<rparr>]) = Inr (first, s2)"
    "mapE (\<lambda>(inscription, i). createSecondTransaction E C s2 first i inscription)
          (zip (inscriptionsPsbts C) [0 ..< length (inscriptionsPsbts C)]) = Inr seconds"
    "createWithdrawTransaction E C s2 first (length outs) seconds = Inr third"
    "firstTransactionPSBT st = first" "secondTransactionPSBTs st = seconds"
    "thirdTransactionPSBT st = third" "ls_session st = s2"
    "extraCPFPFunding st = calculateFundingAmount E third
        (js_div (effectiveFeeRate C * real_of_int (getVBytes E C first + getVBytes E C third
                    + sum_list (map (getVBytes E C) seconds))
                 - real_of_int (getTotalFees first + sum_list (map getTotalFees seconds)))
                (real_of_int (getVBytes E C third)))"
    "CPFPFunding st = c + extraCPFPFunding st"
proof (cases "getBuyerCommitAddress E C s (buyerPublicKey C) (buyerAddress C) u")
  case (Inl e)
  with assms show ?thesis by (simp add: feeLoopBody_def)
next
  case (Inr a)
  obtain addr s1 where a: "a = (addr, s1)" by (cases a)
  note c1 = Inr [unfolded a]
  show ?thesis
  proof (cases "mapE (commitmentFundingOutput E C s1 addr) (inscriptionsPsbts C)")
    case (Inl e)
    with assms c1 show ?thesis by (simp add: feeLoopBody_def)
  next
    case (Inr outs)
    note c2 = Inr
    show ?thesis
    proof (cases "createFirstTransaction E C s1 (outs @ [\<lparr>address = addr, amount = c\<rparr>])")
      case (Inl e)
      with assms c1 c2 show ?thesis by (simp add: feeLoopBody_def)
    next
      case (Inr b)
      obtain first s2 where b: "b = (first, s2)" by (cases b)
      note c3 = Inr [unfolded b]
      show ?thesis
      proof (cases "mapE (\<lambda>(inscription, i). createSecondTransaction E C s2 first i inscription)
          (zip (inscriptionsPsbts C) [0 ..< length (inscriptionsPsbts C)])")
        case (Inl e)
        with assms c1 c2 c3 show ?thesis by (simp add: feeLoopBody_def)
      next
        case (Inr seconds)
        note c4 = Inr
        show ?thesis
        proof (cases "createWithdrawTransaction E C s2 first (length outs) seconds")
          case (Inl e)
          with assms c1 c2 c3 c4 show ?thesis by (simp add: feeLoopBody_def)
        next
          case (Inr third)
          note c5 = Inr
          from assms c1 c2 c3 c4 c5 have
            "st = \<lparr>ls_session = s2,
                   CPFPFunding = c + calculateFundingAmount E third
        (js_div (effectiveFeeRate C * real_of_int (getVBytes E C first + getVBytes E C third
                    + sum_list (map (getVBytes E C) seconds))
                 - real_of_int (getTotalFees first + sum_list (map getTotalFees seconds)))
                (real_of_int (getVBytes E C third))),
                   extraCPFPFunding = calculateFundingAmount E third
        (js_div (effectiveFeeRate C * real_of_int (getVBytes E C first + getVBytes E C third
                    + sum_list (map (getVBytes E C) seconds))
                 - real_of_int (getTotalFees first + sum_list (map getTotalFees seconds)))
                (real_of_int (getVBytes E C third))),
                   firstTransactionPSBT = first, secondTransactionPSBTs = seconds,
                   thirdTransactionPSBT = third\<rparr>"
            by (simp add: feeLoopBody_def Let_def)
          then show ?thesis using that [OF c1 c2 c3 c4 c5] by simp
        qed
      qed
    qed
  qed
qed

lemma feeLoopBody_funding:
  "feeLoopBody E C u s c = Inr st \<Longrightarrow> CPFPFunding st = c + extraCPFPFunding st"
  by (erule feeLoopBody_Inr)

lemma feeLoop_result_aux:
  "feeLoop E C u s c = Some r \<Longrightarrow>
     (\<exists>e s' c'. r = Inl e \<and> c \<le> c' \<and> feeLoopBody E C u s' c' = Inl e) \<or>
     (\<exists>st s' c'. r = Inr st \<and> c \<le> c' \<and> feeLoopBody E C u s' c' = Inr st \<and> extraCPFPFunding st \<le> 0)"
proof (rule feeLoop.raw_induct
        [where P = "\<lambda>E C u s c r.
           (\<exists>e s' c'. r = Inl e \<and> c \<le> c' \<and> feeLoopBody E C u s' c' = Inl e) \<or>
           (\<exists>st s' c'. r = Inr st \<and> c \<le> c' \<and> feeLoopBody E C u s' c' = Inr st \<and> extraCPFPFunding st \<le> 0)"])
  fix loop :: "env \<Rightarrow> config \<Rightarrow> string \<Rightarrow> session \<Rightarrow> int \<Rightarrow> (error + loop_state) option"
  fix E C u s c r
  assume IH: "\<And>E C u s c r. loop E C u s c = Some r \<Longrightarrow>
           (\<exists>e s' c'. r = Inl e \<and> c \<le> c' \<and> feeLoopBody E C u s' c' = Inl e) \<or>
           (\<exists>st s' c'. r = Inr st \<and> c \<le> c' \<and> feeLoopBody E C u s' c' = Inr st \<and> extraCPFPFunding st \<le> 0)"
  assume step: "(case feeLoopBody E C u s c of
        Inl e \<Rightarrow> Some (Inl e)
      | Inr st \<Rightarrow>
          if extraCPFPFunding st > 0 then loop E C u (ls_session st) (CPFPFunding st)
          else Some (Inr st)) = Some r"
  show "(\<exists>e s' c'. r = Inl e \<and> c \<le> c' \<and> feeLoopBody E C u s' c' = Inl e) \<or>
        (\<exists>st s' c'. r = Inr st \<and> c \<le> c' \<and> feeLoopBody E C u s' c' = Inr st \<and> extraCPFPFunding st \<le> 0)"
  proof (cases "feeLoopBody E C u s c")
    case (Inl e)
    with step have "r = Inl e \<and> c \<le> c \<and> feeLoopBody E C u s c = Inl e" by simp
    then show ?thesis by blast
  next
    case (Inr st)
    show ?thesis
    proof (cases "extraCPFPFunding st > 0")
      case True
      with Inr step have "loop E C u (ls_session st) (CPFPFunding st) = Some r" by simp
      from IH [OF this] have *: "(\<exists>e s' c'. r = Inl e \<and> CPFPFunding st \<le> c' \<and> feeLoopBody E C u s' c' = Inl e) \<or>
         (\<exists>st' s' c'. r = Inr st' \<and> CPFPFunding st \<le> c' \<and> feeLoopBody E C u s' c' = Inr st' \<and> extraCPFPFunding st' \<le> 0)" .
      from Inr True have le: "c \<le> CPFPFunding st"
        by (simp add: feeLoopBody_funding)
      from * show ?thesis
      proof
        assume "\<exists>e s' c'. r = Inl e \<and> CPFPFunding st \<le> c' \<and> feeLoopBody E C u s' c' = Inl e"
        then obtain e s' c' where "r = Inl e" "CPFPFunding st \<le> c'" "feeLoopBody E C u s' c' = Inl e"
          by blast
        with le have "r = Inl e \<and> c \<le> c' \<and> feeLoopBody E C u s' c' = Inl e" by simp
        then show ?thesis by blast
      next
        assume "\<exists>st' s' c'. r = Inr st' \<and> CPFPFunding st \<le> c' \<and> feeLoopBody E C u s' c' = Inr st' \<and> extraCPFPFunding st' \<le> 0"
        then obtain st' s' c' where "r = Inr st'" "CPFPFunding st \<le> c'"
          "feeLoopBody E C u s' c' = Inr st'" "extraCPFPFunding st' \<le> 0"
          by blast
        with le have "r = Inr st' \<and> c \<le> c' \<and> feeLoopBody E C u s' c' = Inr st' \<and> extraCPFPFunding st' \<le> 0"
          by simp
        then show ?thesis by blast
      qed
    next
      case False
      with Inr step have "r = Inr st \<and> c \<le> c \<and> feeLoopBody E C u s c = Inr st \<and> extraCPFPFunding st \<le> 0"
        by simp
      then show ?thesis by blast
    qed
  qed
qed

lemma feeLoop_spins_aux:
  "feeLoop E C u s c = Some r \<Longrightarrow>
     \<not> ((\<forall>s c. I s c \<longrightarrow> (\<exists>st. feeLoopBody E C u s c = Inr st \<and> extraCPFPFunding st > 0 \<and>
                                I (ls_session st) (CPFPFunding st))) \<and> I s c)"
proof (rule feeLoop.raw_induct
        [where P = "\<lambda>E C u s c r.
           \<not> ((\<forall>s c. I s c \<longrightarrow> (\<exists>st. feeLoopBody E C u s c = Inr st \<and> extraCPFPFunding st > 0 \<and>
                                I (ls_session st) (CPFPFunding st))) \<and> I s c)"])
  fix loop :: "env \<Rightarrow> config \<Rightarrow> string \<Rightarrow> session \<Rightarrow> int \<Rightarrow> (error + loop_state) option"
  fix E C u s c r
  assume IH: "\<And>E C u s c r. loop E C u s c = Some r \<Longrightarrow>
           \<not> ((\<forall>s c. I s c \<longrightarrow> (\<exists>st. feeLoopBody E C u s c = Inr st \<and> extraCPFPFunding st > 0 \<and>
                                I (ls_session st) (CPFPFunding st))) \<and> I s c)"
  assume step: "(case feeLoopBody E C u s c of
        Inl e \<Rightarrow> Some (Inl e)
      | Inr st \<Rightarrow>
          if extraCPFPFunding st > 0 then loop E C u (ls_session st) (CPFPFunding st)
          else Some (Inr st)) = Some r"
  show "\<not> ((\<forall>s c. I s c \<longrightarrow> (\<exists>st. feeLoopBody E C u s c = Inr st \<and> extraCPFPFunding st > 0 \<and>
                                I (ls_session st) (CPFPFunding st))) \<and> I s c)"
  proof
    assume h: "(\<forall>s c. I s c \<longrightarrow> (\<exists>st. feeLoopBody E C u s c = Inr st \<and> extraCPFPFunding st > 0 \<and>
                                I (ls_session st) (CPFPFunding st))) \<and> I s c"
    then have a: "\<forall>s c. I s c \<longrightarrow> (\<exists>st. feeLoopBody E C u s c = Inr st \<and> extraCPFPFunding st > 0 \<and>
                                I (ls_session st) (CPFPFunding st))"
      and b: "I s c" by (rule conjunct1, rule conjunct2)
    from a [rule_format, OF b] obtain st where st: "feeLoopBody E C u s c = Inr st"
      "extraCPFPFunding st > 0" "I (ls_session st) (CPFPFunding st)" by (elim exE conjE)
    with step have "loop E C u (ls_session st) (CPFPFunding st) = Some r" by simp
    from IH [OF this] a st(3) show False by (simp only: simp_thms)
  qed
next
  assume "feeLoop E C u s c = Some r"
  then show "feeLoop E C u s c = Some r" .
qed

lemma feeLoop_spins:
  assumes "I s c"
    and "\<forall>s c. I s c \<longrightarrow> (\<exists>st. feeLoopBody E C u s c = Inr st \<and> extraCPFPFunding st > 0 \<and>
                                I (ls_session st) (CPFPFunding st))"
  shows "feeLoop E C u s c = None"
proof (cases "feeLoop E C u s c")
  case None
  then show ?thesis .
next
  case (Some r)
  from feeLoop_spins_aux [OF Some, of I] assms show ?thesis by (simp only: simp_thms)
qed

lemma spinEnv_simps [simp]:
  "getAddressType spinEnv = getAddressType demoEnv"
  "getScriptType spinEnv = getScriptType demoEnv"
  "isP2TR spinEnv = isP2TR demoEnv"
  "toXOnly spinEnv = toXOnly demoEnv"
  "toOutputScript spinEnv = toOutputScript demoEnv"
  "getId spinEnv = getId demoEnv"
  "compile spinEnv = compile demoEnv"
  "p2tr spinEnv = p2tr demoEnv"
  "jsonStringify spinEnv = jsonStringify demoEnv"
  "buildWitnessScriptV2 spinEnv = buildWitnessScriptV2 demoEnv"
  "getInscriptions spinEnv = getInscriptions demoEnv"
  "getUnspents spinEnv = getUnspents demoEnv"
  "processInput spinEnv = processInput demoEnv"
  "coinSelect spinEnv = (\<lambda>cands outs r changeAddress.
          \<lparr>cs_inputs = Some cands,
           cs_outputs = Some (map (\<lambda>out. \<lparr>cs_address = Some (address out), cs_value = Some (amount out)\<rparr>) outs)\<rparr>)"
  "funding spinEnv = (\<lambda>ins outs r. 1)"
  "transactionBytes spinEnv = transactionBytes demoEnv"
  by (simp_all add: spinEnv_def)

lemma body_spin:
  assumes "c > 0"
  shows "\<exists>st. feeLoopBody spinEnv demoConfig ''uniqueId'' (demoSession pay fid) c = Inr st \<and>
               extraCPFPFunding st = 1 \<and> CPFPFunding st = c + 1 \<and> ls_session st = builtSession"
proof -
  have csn: "commitScript \<noteq> []" by (simp add: commitScript_def)
  have up: "[0..<2] = [0, 1]" by (simp add: upt_rec)
  have commit: "getBuyerCommitAddress spinEnv demoConfig (demoSession pay fid) ''02bb'' buyerAddr ''uniqueId'' =
     Inr (commitScript, demoSession (Some commitPay) fid)"
    by (simp add: getBuyerCommitAddress_def Let_def demoP2tr_def demoScript_def psbtNetwork_def
        commitScript_def commitPay_def commitHash_def buyerAddr_def demoSession_def)
  have fo: "commitmentFundingOutput spinEnv demoConfig (demoSession (Some commitPay) fid) commitScript (sellerPsbt h)
     = Inr \<lparr>address = commitScript, amount = 601\<rparr>" for h
    by (simp add: commitmentFundingOutput_def commitPay_def calculateFundingAmount_def demoSession_def)
  define first where "first = \<lparr>inputs = inputs (demoFirst c),
      txOutputs = [\<lparr>out_script = commitScript, out_value = 601\<rparr>,
                   \<lparr>out_script = commitScript, out_value = 601\<rparr>,
                   \<lparr>out_script = commitScript, out_value = c\<rparr>]\<rparr>"
  have f: "createFirstTransaction spinEnv demoConfig (demoSession (Some commitPay) fid)
           [\<lparr>address = commitScript, amount = 601\<rparr>, \<lparr>address = commitScript, amount = 601\<rparr>,
            \<lparr>address = commitScript, amount = c\<rparr>]
         = Inr (first, builtSession)"
    using assms csn
    by (simp add: createFirstTransaction_def demoSession_def candidate_def
        demoProcessInput_def Let_def BASE_FEERATE_def emptyPsbt_def addInput_def
        addOutput_def psbtNetwork_def firstTx_def demoFirst_def builtSession_def buyerAddr_def first_def)
  define second where "second = (\<lambda>h i. \<lparr>inputs = inputs (sellerPsbt h) @
                [\<lparr>hash = ''tf0'', index = i,
                  witnessUtxo = Some \<lparr>wu_script = commitScript, wu_value = 601\<rparr>,
                  tapInternalKey = Some ''bb'', tapMerkleRoot = Some commitHash,
                  sighashType = Some 1, redeemScript = None\<rparr>],
      txOutputs = txOutputs (sellerPsbt h)\<rparr>)"
  have s0: "createSecondTransaction spinEnv demoConfig builtSession first 0 (sellerPsbt h) = Inr (second h 0)" for h
    by (simp add: createSecondTransaction_def generateInputFromPSBTOutput_def Let_def first_def
        builtSession_def demoSession_def commitPay_def addInput_def second_def SIGHASH_ALL_def demoFirst_def)
  have s1: "createSecondTransaction spinEnv demoConfig builtSession first (Suc 0) (sellerPsbt h) = Inr (second h (Suc 0))" for h
    by (simp add: createSecondTransaction_def generateInputFromPSBTOutput_def Let_def first_def
        builtSession_def demoSession_def commitPay_def addInput_def second_def SIGHASH_ALL_def demoFirst_def)
  have esc: "escrowInput spinEnv demoConfig (second h i) = Inr (demoEscrowInput h)" for h i
    by (simp add: escrowInput_def second_def sellerPsbt_def outpoint_a1 getEscrowTaprootAddress_def
        Let_def demoP2tr_def demoScript_def generateInputFromPSBTOutput_def kindOf_def unsignedTx_def
        demoEscrowInput_def SIGHASH_ALL_def)
  have t: "createWithdrawTransaction spinEnv demoConfig builtSession first (Suc (Suc 0))
     [second ''a1'' 0, second ''a2'' (Suc 0)] = Inr (demoThird c)"
    by (simp add: createWithdrawTransaction_def esc demoEscrowInput_def emptyPsbt_def
        addInput_def addOutput_def psbtNetwork_def generateInputFromPSBTOutput_def Let_def
        first_def builtSession_def demoSession_def commitPay_def demoThird_def SIGHASH_ALL_def)
  show ?thesis
    by (simp add: feeLoopBody_def commit fo f s0 s1 t up Let_def calculateFundingAmount_def)
qed

lemma spin_invariant:
  "\<forall>s c. (\<exists>pay fid. s = demoSession pay fid) \<and> 0 < c \<longrightarrow>
          (\<exists>st. feeLoopBody spinEnv demoConfig ''uniqueId'' s c = Inr st \<and> 0 < extraCPFPFunding st \<and>
                ((\<exists>pay fid. ls_session st = demoSession pay fid) \<and> 0 < CPFPFunding st))"
proof (intro allI impI)
  fix s c
  assume "(\<exists>pay fid. s = demoSession pay fid) \<and> (0::int) < c"
  then obtain pay fid where s: "s = demoSession pay fid" and c: "0 < c" by (elim exE conjE)
  from body_spin [OF c, of pay fid] obtain st where st:
    "feeLoopBody spinEnv demoConfig ''uniqueId'' (demoSession pay fid) c = Inr st" "extraCPFPFunding st = 1"
    "CPFPFunding st = c + 1" "ls_session st = builtSession"
    by (elim exE conjE)
  have "\<exists>pay fid. ls_session st = demoSession pay fid"
    unfolding st(4) builtSession_def by (intro exI) (rule refl)
  with st s c have "feeLoopBody spinEnv demoConfig ''uniqueId'' s c = Inr st \<and> 0 < extraCPFPFunding st \<and>
        ((\<exists>pay fid. ls_session st = demoSession pay fid) \<and> 0 < CPFPFunding st)"
    by simp
  then show "\<exists>st. feeLoopBody spinEnv demoConfig ''uniqueId'' s c = Inr st \<and> 0 < extraCPFPFunding st \<and>
        ((\<exists>pay fid. ls_session st = demoSession pay fid) \<and> 0 < CPFPFunding st)" by (rule exI)
qed

lemma spin_start: "(\<exists>pay fid. demoSession None None = demoSession pay fid) \<and> (0::int) < 600"
  by auto

lemma loop_spin:
  "feeLoop spinEnv demoConfig ''uniqueId'' (demoSession None None) 600 = None"
  by (rule feeLoop_spins [where I = "\<lambda>s c. (\<exists>pay fid. s = demoSession pay fid) \<and> c > 0",
                          OF spin_start spin_invariant])

lemma buildTransactions_Inr:
  assumes "buildTransactions E C s u = Some (Inr resp, reqs)"
  obtains s1 st where "inscriptionsPsbts C \<noteq> []"
    "fst (getBuyerUtxos E C s) = Inr s1"
    "feeLoop E C u s1 600 = Some (Inr st)" "resp = responseOf st"
proof -
  from assms have ne: "inscriptionsPsbts C \<noteq> []"
    by (auto simp: buildTransactions_def split: if_splits)
  obtain v reqs1 where v: "validateInscriptionPsbts E C (inscriptionsPsbts C) = (v, reqs1)"
    by (cases "validateInscriptionPsbts E C (inscriptionsPsbts C)")
  obtain g reqs2 where g: "getBuyerUtxos E C s = (g, reqs2)"
    by (cases "getBuyerUtxos E C s")
  from assms ne v g obtain s1 where s1: "g = Inr s1"
    by (cases v; cases g) (auto simp: buildTransactions_def Let_def split: if_splits)
  from assms ne v g s1 obtain st where "feeLoop E C u s1 600 = Some (Inr st)" "resp = responseOf st"
    by (cases v; cases "feeLoop E C u s1 600")
       (auto simp: buildTransactions_def Let_def split: if_splits sum.splits)
  with ne g s1 that show ?thesis by simp
qed

text \<open>
  Claim C1, as the code has it. The loop has no iteration bound and no timeout error. A
  call that returns transactions returns those of a pass whose extra funding was 0 or less;
  a pass that ends with an extra funding of 0 or less ends the loop, a pass that asks for
  more is followed by another pass with the funding raised by that amount, a pass that fails
  ends the call with its error; and as long as every pass asks for more, the loop does not
  return.
\<close>

theorem fee_loop_has_no_bound:
  "(\<forall>resp reqs. buildTransactions E C s0 u = Some (Inr resp, reqs) \<longrightarrow>
      (\<exists>st s' c'. resp = responseOf st \<and> 600 \<le> c' \<and> feeLoopBody E C u s' c' = Inr st \<and>
                  extraCPFPFunding st \<le> 0))
   \<and> (\<forall>st. feeLoopBody E C u s c = Inr st \<and> extraCPFPFunding st \<le> 0 \<longrightarrow>
          feeLoop E C u s c = Some (Inr st))
   \<and> (\<forall>st. feeLoopBody E C u s c = Inr st \<and> 0 < extraCPFPFunding st \<longrightarrow>
          feeLoop E C u s c = feeLoop E C u (ls_session st) (c + extraCPFPFunding st))
   \<and> (\<forall>e. feeLoopBody E C u s c = Inl e \<longrightarrow> feeLoop E C u s c = Some (Inl e))
   \<and> (I s c \<and> (\<forall>s c. I s c \<longrightarrow> (\<exists>st. feeLoopBody E C u s c = Inr st \<and> 0 < extraCPFPFunding st \<and>
                                  I (ls_session st) (CPFPFunding st)))
        \<longrightarrow> feeLoop E C u s c = None)"
proof -
  have a: "\<forall>resp reqs. buildTransactions E C s0 u = Some (Inr resp, reqs) \<longrightarrow>
      (\<exists>st s' c'. resp = responseOf st \<and> 600 \<le> c' \<and> feeLoopBody E C u s' c' = Inr st \<and>
                  extraCPFPFunding st \<le> 0)"
  proof (intro allI impI)
    fix resp reqs
    assume "buildTransactions E C s0 u = Some (Inr resp, reqs)"
    then obtain s1 st where l: "feeLoop E C u s1 600 = Some (Inr st)" and r: "resp = responseOf st"
      by (rule buildTransactions_Inr)
    from feeLoop_result_aux [OF l] obtain s' c' where
      "600 \<le> c'" "feeLoopBody E C u s' c' = Inr st" "extraCPFPFunding st \<le> 0"
      by auto
    with r have "resp = responseOf st \<and> 600 \<le> c' \<and> feeLoopBody E C u s' c' = Inr st \<and>
                  extraCPFPFunding st \<le> 0" by simp
    then show "\<exists>st s' c'. resp = responseOf st \<and> 600 \<le> c' \<and> feeLoopBody E C u s' c' = Inr st \<and>
                  extraCPFPFunding st \<le> 0" by blast
  qed
  have b: "\<forall>st. feeLoopBody E C u s c = Inr st \<and> extraCPFPFunding st \<le> 0 \<longrightarrow>
          feeLoop E C u s c = Some (Inr st)"
    by (subst feeLoop.simps) simp
  have c: "\<forall>st. feeLoopBody E C u s c = Inr st \<and> 0 < extraCPFPFunding st \<longrightarrow>
          feeLoop E C u s c = feeLoop E C u (ls_session st) (c + extraCPFPFunding st)"
  proof (intro allI impI)
    fix st assume h: "feeLoopBody E C u s c = Inr st \<and> 0 < extraCPFPFunding st"
    then have "CPFPFunding st = c + extraCPFPFunding st"
      using feeLoopBody_funding [of E C u s c st] by simp
    with h show "feeLoop E C u s c = feeLoop E C u (ls_session st) (c + extraCPFPFunding st)"
      by (subst feeLoop.simps) simp
  qed
  have d: "\<forall>e. feeLoopBody E C u s c = Inl e \<longrightarrow> feeLoop E C u s c = Some (Inl e)"
    by (subst feeLoop.simps) simp
  have e: "I s c \<and> (\<forall>s c. I s c \<longrightarrow> (\<exists>st. feeLoopBody E C u s c = Inr st \<and> 0 < extraCPFPFunding st \<and>
                                  I (ls_session st) (CPFPFunding st)))
        \<longrightarrow> feeLoop E C u s c = None"
  proof
    assume h: "I s c \<and> (\<forall>s c. I s c \<longrightarrow> (\<exists>st. feeLoopBody E C u s c = Inr st \<and> 0 < extraCPFPFunding st \<and>
                                  I (ls_session st) (CPFPFunding st)))"
    show "feeLoop E C u s c = None"
      by (rule feeLoop_spins [OF conjunct1 [OF h] conjunct2 [OF h]])
  qed
  from a b c d e show ?thesis by (intro conjI)
qed

text \<open>With a coin selection that always succeeds and an estimate that always asks for one
  more satoshi, the call neither returns transactions nor fails.\<close>

theorem spinning_run_counterexample:
  "buildTransactions spinEnv demoConfig newSession ''uniqueId'' = None"
proof -
  have sel: "sellerOf spinEnv demoConfig (sellerPsbt h) = Inr (h @ '':0'', sellerAddr)" for h
    by (simp add: sellerOf_def sellerPsbt_def outpoint_a1 sellerAddr_def)
  have v: "validateInscriptionPsbts spinEnv demoConfig [sellerPsbt ''a1'', sellerPsbt ''a2''] =
           (Inr (), [GetInscriptions ''a1:0'', GetInscriptions ''a2:0''])"
    by (simp add: validateInscriptionPsbts_def Let_def sel checkInscription_def)
  have g: "getBuyerUtxos spinEnv demoConfig newSession = (Inr (demoSession None None), [GetUnspents buyerAddr])"
    by (simp add: getBuyerUtxos_def demoUnspents_def demoSession_def newSession_def buyerAddr_def)
  show ?thesis
    by (simp add: buildTransactions_def Let_def v g loop_spin)
qed


theorem fee_loop_has_no_bound_witness:
  "feeLoop demoEnv demoConfig ''uniqueId'' (demoSession None None) 600 =
     Some (Inr \<lparr>ls_session = builtSession, CPFPFunding = 7488, extraCPFPFunding = 0,
                firstTransactionPSBT = demoFirst 7488,
                secondTransactionPSBTs = [demoSecond ''a1'' 0, demoSecond ''a2'' 1],
                thirdTransactionPSBT = demoThird 7488\<rparr>)
   \<and> feeLoop spinEnv demoConfig ''uniqueId'' (demoSession None None) 600 = None"
proof -
  have one: "feeLoop demoEnv demoConfig ''uniqueId'' (demoSession None None) 600 =
             feeLoop demoEnv demoConfig ''uniqueId'' builtSession 7488"
    using fee_loop_has_no_bound
            [of demoEnv demoConfig newSession "''uniqueId''" "demoSession None None" 600 "\<lambda>s c. False"]
    by (simp add: body_demo)
  have two: "feeLoop demoEnv demoConfig ''uniqueId'' builtSession 7488 =
     Some (Inr \<lparr>ls_session = builtSession, CPFPFunding = 7488, extraCPFPFunding = 0,
                firstTransactionPSBT = demoFirst 7488,
                secondTransactionPSBTs = [demoSecond ''a1'' 0, demoSecond ''a2'' 1],
                thirdTransactionPSBT = demoThird 7488\<rparr>)"
    using fee_loop_has_no_bound
            [of demoEnv demoConfig newSession "''uniqueId''" "demoSession (Some commitPay) (Some ''tf0'')"
                7488 "\<lambda>s c. False"]
    by (simp add: body_demo builtSession_def)
  have three: "feeLoop spinEnv demoConfig ''uniqueId'' (demoSession None None) 600 = None"
    using fee_loop_has_no_bound
            [of spinEnv demoConfig newSession "''uniqueId''" "demoSession None None" 600
                "\<lambda>s c. (\<exists>pay fid. s = demoSession pay fid) \<and> c > 0"]
          spin_start spin_invariant
    by (simp only: simp_thms)
  from one two three show ?thesis by simp
qed

subsection \<open>Escrow addresses\<close>




subsection \<open>What a builder that returned has built\<close>

lemma mapE_length: "mapE f xs = Inr ys \<Longrightarrow> length ys = length xs"
  by (induction xs arbitrary: ys) (auto split: sum.splits)

lemma mapE_nth: "mapE f xs = Inr ys \<Longrightarrow> i < length xs \<Longrightarrow> f (xs ! i) = Inr (ys ! i)"
proof (induction xs arbitrary: ys i)
  case Nil
  then show ?case by simp
next
  case (Cons x xs)
  then show ?case
    by (cases i) (auto split: sum.splits)
qed

lemma addOutput_Inr:
  "addOutput E n p out = Inr p' \<Longrightarrow>
     inputs p' = inputs p \<and> (\<exists>scr. txOutputs p' = txOutputs p @ [\<lparr>out_script = scr, out_value = amount out\<rparr>])"
  by (auto simp: addOutput_def split: option.splits)

lemma addOutputs_Inr:
  "addOutputs E n p outs = Inr p' \<Longrightarrow>
     inputs p' = inputs p \<and>
     map out_value (txOutputs p') = map out_value (txOutputs p) @ map amount outs"
proof (induction outs arbitrary: p)
  case Nil
  then show ?case by simp
next
  case (Cons out outs)
  from Cons.prems obtain p1 where p1: "addOutput E n p out = Inr p1" "addOutputs E n p1 outs = Inr p'"
    by (auto split: sum.splits)
  from addOutput_Inr [OF p1(1)] Cons.IH [OF p1(2)] show ?case by auto
qed

lemma addSelectedOutputs_Inr:
  "addSelectedOutputs E C p sel = Inr p' \<Longrightarrow>
     inputs p' = inputs p \<and>
     map out_value (txOutputs p') = map out_value (txOutputs p) @ map (\<lambda>out. case cs_value out of None \<Rightarrow> 0 | Some v \<Rightarrow> v) sel"
proof (induction sel arbitrary: p)
  case Nil
  then show ?case by simp
next
  case (Cons out sel)
  from Cons.prems obtain v p1 where v: "cs_value out = Some v"
    and p1: "addOutput E (psbtNetwork (chain C) (network C)) p
               \<lparr>address = (case cs_address out of None \<Rightarrow> buyerAddress C | Some a \<Rightarrow> a), amount = v\<rparr> = Inr p1"
            "addSelectedOutputs E C p1 sel = Inr p'"
    by (auto split: option.splits if_splits sum.splits)
  from addOutput_Inr [OF p1(1)] Cons.IH [OF p1(2)] v show ?case by auto
qed

lemma addSelectedInputs_Inr:
  "addSelectedInputs cands p picked = Inr p' \<Longrightarrow>
     txOutputs p' = txOutputs p \<and>
     (\<forall>r\<in>set picked. \<exists>c. find (\<lambda>i. txid i = txid r \<and> vout i = vout r) cands = Some c) \<and>
     map inputValue (inputs p') = map inputValue (inputs p) @
       map (\<lambda>r. case find (\<lambda>i. txid i = txid r \<and> vout i = vout r) cands of
                    None \<Rightarrow> 0 | Some c \<Rightarrow> inputValue (pin c)) picked"
proof (induction picked arbitrary: p)
  case Nil
  then show ?case by simp
next
  case (Cons r picked)
  from Cons.prems obtain c where c: "find (\<lambda>i. txid i = txid r \<and> vout i = vout r) cands = Some c"
    and rest: "addSelectedInputs cands (addInput p ((pin c)\<lparr>hash := txid c, index := vout r\<rparr>)) picked = Inr p'"
    by (auto split: option.splits)
  from Cons.IH [OF rest] c show ?case
    by (auto simp: addInput_def inputValue_def)
qed



lemma getBuyerCommitAddress_Inr:
  assumes "getBuyerCommitAddress E C s pk a u = Inr (addr, s1)"
  obtains pay where "s1 = s\<lparr>buyerCommitPaymentAddress := Some pay\<rparr>" "pay_address pay = Some addr"
  using assms
  by (auto simp: getBuyerCommitAddress_def Let_def split: option.splits if_splits)


lemma createFirstTransaction_Inr:
  assumes "createFirstTransaction E C s outs = Inr (first, s2)"
  obtains cands picked sel p1 where
    "mapE (candidate E C) (buyerUtxos s) = Inr cands"
    "cs_inputs (coinSelect E cands outs BASE_FEERATE (buyerAddress C)) = Some picked"
    "cs_outputs (coinSelect E cands outs BASE_FEERATE (buyerAddress C)) = Some sel"
    "addSelectedInputs cands emptyPsbt picked = Inr p1"
    "addSelectedOutputs E C p1 sel = Inr first"
    "s2 = s\<lparr>firstTxId := Some (getId E (firstTx E first picked))\<rparr>"
proof (cases "mapE (candidate E C) (buyerUtxos s)")
  case (Inl e)
  with assms show ?thesis by (simp add: createFirstTransaction_def)
next
  case (Inr cands)
  let ?res = "coinSelect E cands outs BASE_FEERATE (buyerAddress C)"
  from assms Inr obtain picked where picked: "cs_inputs ?res = Some picked"
    by (cases "cs_inputs ?res") (simp_all add: createFirstTransaction_def Let_def)
  from assms Inr picked have pne: "picked \<noteq> []"
    by (auto simp: createFirstTransaction_def Let_def)
  from assms Inr picked pne obtain sel where sel: "cs_outputs ?res = Some sel"
    by (cases "cs_outputs ?res") (simp_all add: createFirstTransaction_def Let_def)
  from assms Inr picked pne sel have sne: "sel \<noteq> []"
    by (auto simp: createFirstTransaction_def Let_def)
  from assms Inr picked pne sel sne obtain p1 where p1: "addSelectedInputs cands emptyPsbt picked = Inr p1"
    by (cases "addSelectedInputs cands emptyPsbt picked") (simp_all add: createFirstTransaction_def Let_def)
  from assms Inr picked pne sel sne p1 have
    "addSelectedOutputs E C p1 sel = Inr first \<and> s2 = s\<lparr>firstTxId := Some (getId E (firstTx E first picked))\<rparr>"
    by (cases "addSelectedOutputs E C p1 sel") (simp_all add: createFirstTransaction_def Let_def)
  with that [OF Inr picked sel p1] show ?thesis by simp
qed

lemma generateInput_Inr:
  assumes "generateInputFromPSBTOutput E C p i pk sh = Inr g"
  shows "i < length (txOutputs p) \<and>
         witnessUtxo g = Some \<lparr>wu_script = out_script (txOutputs p ! i), wu_value = out_value (txOutputs p ! i)\<rparr>"
  using assms
  by (auto simp: generateInputFromPSBTOutput_def Let_def split: if_splits)

lemma createSecondTransaction_Inr:
  assumes "createSecondTransaction E C s first i insc = Inr p'"
  obtains g where "p' = addInput insc g" "i < length (txOutputs first)"
    "witnessUtxo g = Some \<lparr>wu_script = out_script (txOutputs first ! i), wu_value = out_value (txOutputs first ! i)\<rparr>"
proof -
  from assms obtain g0 and pay :: payment and h
    where g0: "generateInputFromPSBTOutput E C first i (buyerPublicKey C) (Some SIGHASH_ALL) = Inr g0"
    and p': "p' = addInput insc (g0\<lparr>hash := h, tapMerkleRoot := pay_hash pay\<rparr>)"
    by (auto simp: createSecondTransaction_def split: sum.splits option.splits)
  from generateInput_Inr [OF g0] p' that [of "g0\<lparr>hash := h, tapMerkleRoot := pay_hash pay\<rparr>"]
  show ?thesis by simp
qed

lemma addEscrowInputs_Inr:
  "addEscrowInputs E C p ins = Inr p' \<Longrightarrow>
     map inputValue (inputs p') = map inputValue (inputs p) @ map inputValue ins \<and>
     map out_value (txOutputs p') = map out_value (txOutputs p) @ map inputValue ins"
proof (induction ins arbitrary: p)
  case Nil
  then show ?case by simp
next
  case (Cons i ins)
  from Cons.prems obtain w p1 where w: "witnessUtxo i = Some w"
    and p1: "addOutput E (psbtNetwork (chain C) (network C)) (addInput p i)
               \<lparr>address = receiveAddress C, amount = wu_value w\<rparr> = Inr p1"
            "addEscrowInputs E C p1 ins = Inr p'"
    by (auto split: option.splits sum.splits)
  from addOutput_Inr [OF p1(1)] Cons.IH [OF p1(2)] w show ?case
    by (auto simp: addInput_def inputValue_def)
qed

lemma createWithdrawTransaction_Inr:
  assumes "createWithdrawTransaction E C s first idx seconds = Inr third"
  obtains ins where
    "mapE (escrowInput E C) seconds = Inr ins"
    "idx < length (txOutputs first)"
    "map inputValue (inputs third) = map inputValue ins @ [out_value (txOutputs first ! idx)]"
    "map out_value (txOutputs third) = map inputValue ins @ map amount (extraOutputs C)"
proof -
  from assms obtain ins p1 p2 g and h :: string and fid where
    ins: "mapE (escrowInput E C) seconds = Inr ins"
    and p1: "addEscrowInputs E C emptyPsbt ins = Inr p1"
    and p2: "addOutputs E (psbtNetwork (chain C) (network C)) p1 (extraOutputs C) = Inr p2"
    and g: "generateInputFromPSBTOutput E C first idx (buyerPublicKey C) (Some SIGHASH_ALL) = Inr g"
    and t: "third = addInput p2 (g\<lparr>hash := fid, tapMerkleRoot := Some h\<rparr>)"
    by (auto simp: createWithdrawTransaction_def split: sum.splits option.splits)
  from addEscrowInputs_Inr [OF p1] addOutputs_Inr [OF p2] generateInput_Inr [OF g] t
  have "idx < length (txOutputs first)"
    "map inputValue (inputs third) = map inputValue ins @ [out_value (txOutputs first ! idx)]"
    "map out_value (txOutputs third) = map inputValue ins @ map amount (extraOutputs C)"
    by (auto simp: addInput_def emptyPsbt_def inputValue_def)
  with that [OF ins] show ?thesis by blast
qed

lemma feeLoopBody_utxos:
  assumes "feeLoopBody E C u s c = Inr st"
  shows "buyerUtxos (ls_session st) = buyerUtxos s"
proof -
  from assms obtain addr s1 outs first s2 where
    a: "getBuyerCommitAddress E C s (buyerPublicKey C) (buyerAddress C) u = Inr (addr, s1)"
    and f: "createFirstTransaction E C s1 (outs @ [\<lparr>address = addr, amount = c\<rparr>]) = Inr (first, s2)"
    and l: "ls_session st = s2"
    by (rule feeLoopBody_Inr)
  from a obtain pay where "s1 = s\<lparr>buyerCommitPaymentAddress := Some pay\<rparr>"
    by (rule getBuyerCommitAddress_Inr)
  moreover from f obtain x where "s2 = s1\<lparr>firstTxId := x\<rparr>"
    by (rule createFirstTransaction_Inr)
  ultimately show ?thesis using l by simp
qed

lemma feeLoop_result_utxos:
  "feeLoop E C u s c = Some r \<Longrightarrow>
     (\<forall>st. r = Inr st \<longrightarrow>
        (\<exists>s' c'. buyerUtxos s' = buyerUtxos s \<and> feeLoopBody E C u s' c' = Inr st \<and> extraCPFPFunding st \<le> 0))"
proof (rule feeLoop.raw_induct
        [where P = "\<lambda>E C u s c r. \<forall>st. r = Inr st \<longrightarrow>
        (\<exists>s' c'. buyerUtxos s' = buyerUtxos s \<and> feeLoopBody E C u s' c' = Inr st \<and> extraCPFPFunding st \<le> 0)"])
  fix loop :: "env \<Rightarrow> config \<Rightarrow> string \<Rightarrow> session \<Rightarrow> int \<Rightarrow> (error + loop_state) option"
  fix E C u s c r
  assume IH: "\<And>E C u s c r. loop E C u s c = Some r \<Longrightarrow>
           \<forall>st. r = Inr st \<longrightarrow>
        (\<exists>s' c'. buyerUtxos s' = buyerUtxos s \<and> feeLoopBody E C u s' c' = Inr st \<and> extraCPFPFunding st \<le> 0)"
  assume step: "(case feeLoopBody E C u s c of
        Inl e \<Rightarrow> Some (Inl e)
      | Inr st \<Rightarrow>
          if extraCPFPFunding st > 0 then loop E C u (ls_session st) (CPFPFunding st)
          else Some (Inr st)) = Some r"
  show "\<forall>st. r = Inr st \<longrightarrow>
        (\<exists>s' c'. buyerUtxos s' = buyerUtxos s \<and> feeLoopBody E C u s' c' = Inr st \<and> extraCPFPFunding st \<le> 0)"
  proof (intro allI impI)
    fix st assume r: "r = Inr st"
    show "\<exists>s' c'. buyerUtxos s' = buyerUtxos s \<and> feeLoopBody E C u s' c' = Inr st \<and> extraCPFPFunding st \<le> 0"
    proof (cases "feeLoopBody E C u s c")
      case (Inl e)
      with step r show ?thesis by simp
    next
      case (Inr st0)
      show ?thesis
      proof (cases "extraCPFPFunding st0 > 0")
        case True
        with Inr step have "loop E C u (ls_session st0) (CPFPFunding st0) = Some r" by simp
        from IH [OF this] r obtain s' c' where
          *: "buyerUtxos s' = buyerUtxos (ls_session st0)" "feeLoopBody E C u s' c' = Inr st"
             "extraCPFPFunding st \<le> 0"
          by blast
        from feeLoopBody_utxos [OF Inr] * have
          "buyerUtxos s' = buyerUtxos s \<and> feeLoopBody E C u s' c' = Inr st \<and> extraCPFPFunding st \<le> 0"
          by simp
        then show ?thesis by blast
      next
        case False
        with Inr step r have
          "buyerUtxos s = buyerUtxos s \<and> feeLoopBody E C u s c = Inr st \<and> extraCPFPFunding st \<le> 0"
          by simp
        then show ?thesis by blast
      qed
    qed
  qed
next
  assume "feeLoop E C u s c = Some r"
  then show "feeLoop E C u s c = Some r" .
qed

lemma returned_pass:
  assumes "buildTransactions E C s u = Some (Inr resp, reqs)"
  obtains st s' c' s1 where "feeLoopBody E C u s' c' = Inr st" "extraCPFPFunding st \<le> 0"
    "resp = responseOf st" "fst (getBuyerUtxos E C s) = Inr s1" "buyerUtxos s' = buyerUtxos s1"
    "inscriptionsPsbts C \<noteq> []"
proof -
  from assms obtain s1 st where ne: "inscriptionsPsbts C \<noteq> []"
    and g: "fst (getBuyerUtxos E C s) = Inr s1"
    and l: "feeLoop E C u s1 600 = Some (Inr st)" and r: "resp = responseOf st"
    by (rule buildTransactions_Inr)
  from feeLoop_result_utxos [OF l] obtain s' c' where
    "buyerUtxos s' = buyerUtxos s1" "feeLoopBody E C u s' c' = Inr st" "extraCPFPFunding st \<le> 0"
    by blast
  with that ne g r show ?thesis by blast
qed

subsection \<open>Shape of the chain\<close>

text \<open>What a pass that returned says about the sizes of its three kinds of transaction.\<close>

lemma pass_counts:
  assumes "feeLoopBody E C u s c = Inr st"
  shows "length (secondTransactionPSBTs st) = length (inscriptionsPsbts C)"
    and "\<forall>i<length (inscriptionsPsbts C).
           length (inputs (secondTransactionPSBTs st ! i)) = length (inputs (inscriptionsPsbts C ! i)) + 1
           \<and> txOutputs (secondTransactionPSBTs st ! i) = txOutputs (inscriptionsPsbts C ! i)"
    and "length (inputs (thirdTransactionPSBT st)) = length (inscriptionsPsbts C) + 1"
    and "length (txOutputs (thirdTransactionPSBT st)) = length (inscriptionsPsbts C) + length (extraOutputs C)"
    and "length (inscriptionsPsbts C) + 1 \<le> length (txOutputs (firstTransactionPSBT st))"
proof -
  let ?ps = "inscriptionsPsbts C"
  from assms obtain addr s1 outs first s2 seconds third where
    o: "mapE (commitmentFundingOutput E C s1 addr) ?ps = Inr outs"
    and sec: "mapE (\<lambda>(inscription, i). createSecondTransaction E C s2 first i inscription)
          (zip ?ps [0 ..< length ?ps]) = Inr seconds"
    and th: "createWithdrawTransaction E C s2 first (length outs) seconds = Inr third"
    and st: "firstTransactionPSBT st = first" "secondTransactionPSBTs st = seconds"
      "thirdTransactionPSBT st = third"
    by (rule feeLoopBody_Inr)
  have lo: "length outs = length ?ps" using o by (rule mapE_length)
  have ls: "length seconds = length ?ps" using mapE_length [OF sec] by simp
  show "length (secondTransactionPSBTs st) = length ?ps" using ls st by simp
  show "\<forall>i<length ?ps.
           length (inputs (secondTransactionPSBTs st ! i)) = length (inputs (?ps ! i)) + 1
           \<and> txOutputs (secondTransactionPSBTs st ! i) = txOutputs (?ps ! i)"
  proof (intro allI impI)
    fix i assume i: "i < length ?ps"
    then have "i < length (zip ?ps [0 ..< length ?ps])" by simp
    from mapE_nth [OF sec this] i have
      "createSecondTransaction E C s2 first i (?ps ! i) = Inr (seconds ! i)" by simp
    then obtain g where "seconds ! i = addInput (?ps ! i) g"
      by (rule createSecondTransaction_Inr)
    with st show "length (inputs (secondTransactionPSBTs st ! i)) = length (inputs (?ps ! i)) + 1
           \<and> txOutputs (secondTransactionPSBTs st ! i) = txOutputs (?ps ! i)"
      by (simp add: addInput_def)
  qed
  from th obtain ins where ins: "mapE (escrowInput E C) seconds = Inr ins"
    and idx: "length outs < length (txOutputs first)"
    and iv: "map inputValue (inputs third) = map inputValue ins @ [out_value (txOutputs first ! length outs)]"
    and ov: "map out_value (txOutputs third) = map inputValue ins @ map amount (extraOutputs C)"
    by (rule createWithdrawTransaction_Inr)
  have li: "length ins = length ?ps" using mapE_length [OF ins] ls by simp
  from arg_cong [OF iv, of length] li st show "length (inputs (thirdTransactionPSBT st)) = length ?ps + 1"
    by simp
  from arg_cong [OF ov, of length] li st
  show "length (txOutputs (thirdTransactionPSBT st)) = length ?ps + length (extraOutputs C)"
    by simp
  from idx lo st show "length ?ps + 1 \<le> length (txOutputs (firstTransactionPSBT st))" by simp
qed

text \<open>What a pass that returned says about its first transaction.\<close>

lemma pass_first:
  assumes "feeLoopBody E C u s c = Inr st"
  obtains addr s1 pay outs cands picked sel where
    "getBuyerCommitAddress E C s (buyerPublicKey C) (buyerAddress C) u = Inr (addr, s1)"
    "buyerCommitPaymentAddress s1 = Some pay"
    "mapE (commitmentFundingOutput E C s1 addr) (inscriptionsPsbts C) = Inr outs"
    "mapE (candidate E C) (buyerUtxos s) = Inr cands"
    "cs_inputs (coinSelect E cands (outs @ [\<lparr>address = addr, amount = c\<rparr>]) BASE_FEERATE (buyerAddress C)) = Some picked"
    "cs_outputs (coinSelect E cands (outs @ [\<lparr>address = addr, amount = c\<rparr>]) BASE_FEERATE (buyerAddress C)) = Some sel"
    "map out_value (txOutputs (firstTransactionPSBT st)) =
       map (\<lambda>out. case cs_value out of None \<Rightarrow> 0 | Some v \<Rightarrow> v) sel"
    "map inputValue (inputs (firstTransactionPSBT st)) =
       map (\<lambda>r. case find (\<lambda>i. txid i = txid r \<and> vout i = vout r) cands of
                    None \<Rightarrow> 0 | Some c \<Rightarrow> inputValue (pin c)) picked"
proof -
  from assms obtain addr s1 outs first s2 where
    a: "getBuyerCommitAddress E C s (buyerPublicKey C) (buyerAddress C) u = Inr (addr, s1)"
    and o: "mapE (commitmentFundingOutput E C s1 addr) (inscriptionsPsbts C) = Inr outs"
    and f: "createFirstTransaction E C s1 (outs @ [\<lparr>address = addr, amount = c\<rparr>]) = Inr (first, s2)"
    and st: "firstTransactionPSBT st = first"
    by (rule feeLoopBody_Inr)
  from a obtain pay where s1: "s1 = s\<lparr>buyerCommitPaymentAddress := Some pay\<rparr>"
    by (rule getBuyerCommitAddress_Inr)
  from f obtain cands picked sel p1 where
    c: "mapE (candidate E C) (buyerUtxos s1) = Inr cands"
    and pk: "cs_inputs (coinSelect E cands (outs @ [\<lparr>address = addr, amount = c\<rparr>]) BASE_FEERATE (buyerAddress C)) = Some picked"
    and sl: "cs_outputs (coinSelect E cands (outs @ [\<lparr>address = addr, amount = c\<rparr>]) BASE_FEERATE (buyerAddress C)) = Some sel"
    and p1: "addSelectedInputs cands emptyPsbt picked = Inr p1"
    and p2: "addSelectedOutputs E C p1 sel = Inr first"
    by (rule createFirstTransaction_Inr)
  from addSelectedInputs_Inr [OF p1] addSelectedOutputs_Inr [OF p2]
  have "map out_value (txOutputs first) = map (\<lambda>out. case cs_value out of None \<Rightarrow> 0 | Some v \<Rightarrow> v) sel"
    and "map inputValue (inputs first) =
       map (\<lambda>r. case find (\<lambda>i. txid i = txid r \<and> vout i = vout r) cands of
                    None \<Rightarrow> 0 | Some c \<Rightarrow> inputValue (pin c)) picked"
    by (simp_all add: emptyPsbt_def)
  with that [OF a _ o _ pk sl] c s1 st show ?thesis by simp
qed

text \<open>
  Claim C2, as the code has it. A call that returns, for N seller transactions, returns a
  first transaction with at least N + 1 outputs, namely what coin selection returned for
  the N commitment-funding targets and the CPFP-funding target (N + 2 at most where coin
  selection adds at most one change output); N second transactions, each with one input
  more than its seller transaction; and a third transaction with N + 1 inputs and as many
  outputs as escrow inputs plus configured extra outputs. For two single-input seller
  transactions: at least 3 outputs, 2 inputs each, 3 inputs.
\<close>

theorem chain_shape:
  assumes "buildTransactions E C s u = Some (Inr resp, reqs)"
  shows "length (inscriptionsPsbts C) + 1 \<le> length (txOutputs (firstTransactionPSBTB64 resp))
     \<and> ((\<forall>cands outs a sel. cs_outputs (coinSelect E cands outs BASE_FEERATE a) = Some sel \<longrightarrow>
            length sel \<le> length outs + 1) \<longrightarrow>
          length (txOutputs (firstTransactionPSBTB64 resp)) \<le> length (inscriptionsPsbts C) + 2)
     \<and> length (secondTransactionPSBTB64s resp) = length (inscriptionsPsbts C)
     \<and> (\<forall>i<length (inscriptionsPsbts C).
           length (inputs (secondTransactionPSBTB64s resp ! i)) = length (inputs (inscriptionsPsbts C ! i)) + 1)
     \<and> length (inputs (thirdTransactionPSBTB64 resp)) = length (inscriptionsPsbts C) + 1
     \<and> length (txOutputs (thirdTransactionPSBTB64 resp)) =
         length (inscriptionsPsbts C) + length (extraOutputs C)"
proof -
  from assms obtain st s' c' where b: "feeLoopBody E C u s' c' = Inr st" and r: "resp = responseOf st"
    by (rule returned_pass)
  note pc = pass_counts [OF b]
  have k: "(\<forall>cands outs a sel. cs_outputs (coinSelect E cands outs BASE_FEERATE a) = Some sel \<longrightarrow>
            length sel \<le> length outs + 1) \<longrightarrow>
          length (txOutputs (firstTransactionPSBT st)) \<le> length (inscriptionsPsbts C) + 2"
  proof
    assume K: "\<forall>cands outs a sel. cs_outputs (coinSelect E cands outs BASE_FEERATE a) = Some sel \<longrightarrow>
            length sel \<le> length outs + 1"
    from b obtain addr s1 outs cands sel where
      o: "mapE (commitmentFundingOutput E C s1 addr) (inscriptionsPsbts C) = Inr outs"
      and sl: "cs_outputs (coinSelect E cands (outs @ [\<lparr>address = addr, amount = c'\<rparr>]) BASE_FEERATE (buyerAddress C)) = Some sel"
      and ov: "map out_value (txOutputs (firstTransactionPSBT st)) =
         map (\<lambda>out. case cs_value out of None \<Rightarrow> 0 | Some v \<Rightarrow> v) sel"
      by (rule pass_first)
    from K sl have "length sel \<le> length (outs @ [\<lparr>address = addr, amount = c'\<rparr>]) + 1" by blast
    moreover have "length outs = length (inscriptionsPsbts C)" using o by (rule mapE_length)
    moreover from arg_cong [OF ov, of length] have "length (txOutputs (firstTransactionPSBT st)) = length sel"
      by simp
    ultimately show "length (txOutputs (firstTransactionPSBT st)) \<le> length (inscriptionsPsbts C) + 2"
      by simp
  qed
  from pc k r show ?thesis
    by (simp add: responseOf_def)
qed

theorem chain_shape_witness:
  "buildTransactions demoEnv demoConfig newSession ''uniqueId'' =
     Some (Inr \<lparr>firstTransactionPSBTB64 = demoFirst 7488,
                secondTransactionPSBTB64s = [demoSecond ''a1'' 0, demoSecond ''a2'' 1],
                thirdTransactionPSBTB64 = demoThird 7488\<rparr>,
           [GetInscriptions ''a1:0'', GetInscriptions ''a2:0'', GetUnspents buyerAddr])
   \<and> length (txOutputs (demoFirst 7488)) = 4
   \<and> length (inputs (demoSecond ''a1'' 0)) = 2
   \<and> length (inputs (demoSecond ''a2'' 1)) = 2
   \<and> length (inputs (demoThird 7488)) = 3
   \<and> length (txOutputs (demoThird 7488)) = 3"
proof -
  have K: "\<forall>cands outs a sel. cs_outputs (coinSelect demoEnv cands outs BASE_FEERATE a) = Some sel \<longrightarrow>
            length sel \<le> length outs + 1"
    by (auto simp: demoSelect_def Let_def split: if_splits)
  have lt: "(\<forall>i<2. P i) \<longleftrightarrow> P 0 \<and> P (Suc 0)" for P :: "nat \<Rightarrow> bool"
    by (auto simp: less_Suc_eq numeral_2_eq_2)
  from chain_shape [OF run_demo] K run_demo show ?thesis
    by (simp add: lt sellerPsbt_def demoFirst_def demoSecond_def demoThird_def)
qed

text \<open>With two inscriptions, sufficient funds and an effective fee rate of 8, the first
  transaction carries a change output besides the three requested ones.\<close>

theorem first_transaction_has_change_counterexample:
  "buildTransactions demoEnv demoConfig newSession ''uniqueId'' =
     Some (Inr \<lparr>firstTransactionPSBTB64 = demoFirst 7488,
                secondTransactionPSBTB64s = [demoSecond ''a1'' 0, demoSecond ''a2'' 1],
                thirdTransactionPSBTB64 = demoThird 7488\<rparr>,
           [GetInscriptions ''a1:0'', GetInscriptions ''a2:0'', GetUnspents buyerAddr])
   \<and> length (inscriptionsPsbts demoConfig) = 2
   \<and> effectiveFeeRate demoConfig = 8
   \<and> length (txOutputs (demoFirst 7488)) \<noteq> 3"
  using run_demo by (simp add: demoFirst_def)

subsection \<open>Funding of the second transactions\<close>





subsection \<open>Fees\<close>










lemma lowFeeConfig_simps [simp]:
  "network lowFeeConfig = regtest"
  "chain lowFeeConfig = bitcoin"
  "escrowPublicKey lowFeeConfig = ''03ee''"
  "inscriptionsPsbts lowFeeConfig = [sellerPsbt ''a1'', sellerPsbt ''a2'']"
  "buyerAddress lowFeeConfig = buyerAddr"
  "buyerPublicKey lowFeeConfig = ''02bb''"
  "receiveAddress lowFeeConfig = ''bcrt1preceive''"
  "effectiveFeeRate lowFeeConfig = 1"
  "extraOutputs lowFeeConfig = [\<lparr>address = ''bcrt1qmarket'', amount = 1000\<rparr>]"
  by (simp_all add: lowFeeConfig_def)




end
